theory Spec2Isabelle
  imports Complex_Main "HOL-Library.Multiset" "HOL-Library.Sublist"
begin

section \<open>Numbers, vectors and matrices\<close>

text \<open>
  JavaScript numbers are modelled as real numbers: rounding, NaN and the infinities are
  outside the model. \<open>Number.MAX_VALUE\<close> is the largest finite double; the particle
  system uses it as the sentinel for a lifetime that never ends.
\<close>

definition MAX_VALUE :: real where
  "MAX_VALUE = 2 ^ 1024 - 2 ^ 971"

type_synonym Cartesian2 = "real \<times> real"
type_synonym Cartesian3 = "real \<times> real \<times> real"
type_synonym Color = "real \<times> real \<times> real \<times> real"

text \<open>A \<open>Matrix4\<close> holds its sixteen entries in column-major order, as the array does.\<close>

datatype Matrix4 =
  Matrix4 real real real real  real real real real  real real real real  real real real real

definition Matrix4_IDENTITY :: Matrix4 where
  "Matrix4_IDENTITY = Matrix4 1 0 0 0  0 1 0 0  0 0 1 0  0 0 0 1"

definition Cartesian3_ZERO :: Cartesian3 where
  "Cartesian3_ZERO = (0, 0, 0)"

definition Color_WHITE :: Color where
  "Color_WHITE = (1, 1, 1, 1)"

text \<open>
  The vector and matrix primitives of \<open>Core/Cartesian3.js\<close>, \<open>Core/Matrix4.js\<close> and
  \<open>Core/Math.js\<close> are not among the sources (the spec treats them as external
  collaborators); they are given their usual mathematical meaning.
\<close>

text \<open>Modelled from the spec: \<open>Cartesian3.add\<close>, the sum of two vectors.\<close>

fun Cartesian3_add :: "Cartesian3 \<Rightarrow> Cartesian3 \<Rightarrow> Cartesian3" where
  "Cartesian3_add (ax, ay, az) (bx, by, bz) = (ax + bx, ay + by, az + bz)"

text \<open>Modelled from the spec: \<open>Cartesian3.subtract\<close>, the difference of two vectors.\<close>

fun Cartesian3_subtract :: "Cartesian3 \<Rightarrow> Cartesian3 \<Rightarrow> Cartesian3" where
  "Cartesian3_subtract (ax, ay, az) (bx, by, bz) = (ax - bx, ay - by, az - bz)"

text \<open>Modelled from the spec: \<open>Cartesian3.multiplyByScalar\<close>.\<close>

fun Cartesian3_multiplyByScalar :: "Cartesian3 \<Rightarrow> real \<Rightarrow> Cartesian3" where
  "Cartesian3_multiplyByScalar (ax, ay, az) k = (ax * k, ay * k, az * k)"

text \<open>Modelled from the spec: \<open>Cartesian3.magnitude\<close>, the Euclidean length.\<close>

fun Cartesian3_magnitude :: "Cartesian3 \<Rightarrow> real" where
  "Cartesian3_magnitude (ax, ay, az) = sqrt (ax * ax + ay * ay + az * az)"

text \<open>
  Modelled from the spec: \<open>Cartesian3.normalize\<close> divides by the magnitude. On the zero
  vector JavaScript yields NaN components; HOL's division by zero yields the zero vector,
  so the theorems about normalized vectors assume a non-zero argument.
\<close>

fun Cartesian3_normalize :: "Cartesian3 \<Rightarrow> Cartesian3" where
  "Cartesian3_normalize (ax, ay, az) =
     (let m = Cartesian3_magnitude (ax, ay, az) in (ax / m, ay / m, az / m))"

text \<open>
  Modelled from the spec: \<open>Matrix4.multiplyByPoint\<close> applies the matrix to the point
  \<open>(x, y, z, 1)\<close>.
\<close>

fun Matrix4_multiplyByPoint :: "Matrix4 \<Rightarrow> Cartesian3 \<Rightarrow> Cartesian3" where
  "Matrix4_multiplyByPoint
     (Matrix4 m0 m1 m2 m3  m4 m5 m6 m7  m8 m9 m10 m11  m12 m13 m14 m15) (vX, vY, vZ) =
     (m0 * vX + m4 * vY + m8 * vZ + m12,
      m1 * vX + m5 * vY + m9 * vZ + m13,
      m2 * vX + m6 * vY + m10 * vZ + m14)"

text \<open>Modelled from the spec: \<open>Matrix4.multiply\<close>, the matrix product.\<close>

fun Matrix4_multiply :: "Matrix4 \<Rightarrow> Matrix4 \<Rightarrow> Matrix4" where
  "Matrix4_multiply
     (Matrix4 l0 l1 l2 l3  l4 l5 l6 l7  l8 l9 l10 l11  l12 l13 l14 l15)
     (Matrix4 r0 r1 r2 r3  r4 r5 r6 r7  r8 r9 r10 r11  r12 r13 r14 r15) =
     Matrix4
       (l0 * r0 + l4 * r1 + l8 * r2 + l12 * r3)
       (l1 * r0 + l5 * r1 + l9 * r2 + l13 * r3)
       (l2 * r0 + l6 * r1 + l10 * r2 + l14 * r3)
       (l3 * r0 + l7 * r1 + l11 * r2 + l15 * r3)
       (l0 * r4 + l4 * r5 + l8 * r6 + l12 * r7)
       (l1 * r4 + l5 * r5 + l9 * r6 + l13 * r7)
       (l2 * r4 + l6 * r5 + l10 * r6 + l14 * r7)
       (l3 * r4 + l7 * r5 + l11 * r6 + l15 * r7)
       (l0 * r8 + l4 * r9 + l8 * r10 + l12 * r11)
       (l1 * r8 + l5 * r9 + l9 * r10 + l13 * r11)
       (l2 * r8 + l6 * r9 + l10 * r10 + l14 * r11)
       (l3 * r8 + l7 * r9 + l11 * r10 + l15 * r11)
       (l0 * r12 + l4 * r13 + l8 * r14 + l12 * r15)
       (l1 * r12 + l5 * r13 + l9 * r14 + l13 * r15)
       (l2 * r12 + l6 * r13 + l10 * r14 + l14 * r15)
       (l3 * r12 + l7 * r13 + l11 * r14 + l15 * r15)"

text \<open>
  Modelled from the spec: \<open>CesiumMath.mod(m, n)\<close>, the modulo that is also right for
  negative dividends. For \<open>n = 0\<close> JavaScript yields NaN, so the theorems that go through
  \<open>CesiumMath_mod\<close> assume a positive modulus.
\<close>

definition CesiumMath_mod :: "real \<Rightarrow> real \<Rightarrow> real" where
  "CesiumMath_mod m n = m - n * of_int \<lfloor>m / n\<rfloor>"

text \<open>Modelled from the spec: \<open>CesiumMath.lerp\<close>, the linear interpolation.\<close>

definition CesiumMath_lerp :: "real \<Rightarrow> real \<Rightarrow> real \<Rightarrow> real" where
  "CesiumMath_lerp p q t = (1 - t) * p + t * q"

text \<open>Modelled from the spec: \<open>CesiumMath.clamp\<close>.\<close>

definition CesiumMath_clamp :: "real \<Rightarrow> real \<Rightarrow> real \<Rightarrow> real" where
  "CesiumMath_clamp v lo hi = (if v < lo then lo else if v > hi then hi else v)"

text \<open>
  The pseudo-random generator behind \<open>CesiumMath.nextRandomNumber\<close> is global state. It
  is modelled as the stream of the numbers it is still to return, each in \<open>[0, 1)\<close>;
  drawing a number takes the head and leaves the tail.
\<close>

type_synonym random = "nat \<Rightarrow> real"

text \<open>
  Modelled from the spec: \<open>CesiumMath.randomBetween(min, max)\<close> draws one number \<open>r\<close>
  and returns \<open>r * (max - min) + min\<close>.
\<close>

definition randomBetween :: "random \<Rightarrow> real \<Rightarrow> real \<Rightarrow> real \<times> random" where
  "randomBetween rnd lo hi = (rnd 0 * (hi - lo) + lo, \<lambda>n. rnd (Suc n))"

section \<open>The billboard collection\<close>

text \<open>
  Modelled from the spec: \<open>BillboardCollection.js\<close> is not among the sources. By the
  interface of the spec, \<open>add\<close> takes a descriptor and returns a handle, \<open>remove\<close>
  takes a handle, and the fields of a handle are settable. A handle is a natural number;
  the collection is the list of its entries in the order they were added, and the next
  unused handle. An image is an opaque handle.
\<close>

record Billboard =
  bb_image :: "nat option"
  bb_show :: bool
  bb_position :: Cartesian3
  bb_width :: real
  bb_height :: real
  bb_color :: Color
  bb_scale :: real
  bb_sizeInMeters :: bool

text \<open>Modelled from the spec: the collection, its entries and the next unused handle.\<close>

record BillboardCollection =
  billboards :: "(nat \<times> Billboard) list"
  nextHandle :: nat

text \<open>Modelled from the spec: a new collection is empty.\<close>

definition new_BillboardCollection :: BillboardCollection where
  "new_BillboardCollection = \<lparr>billboards = [], nextHandle = 0\<rparr>"

text \<open>
  Modelled from the spec: a billboard as \<open>add\<close> makes it from a descriptor with an image
  and a visibility.
\<close>

definition new_Billboard :: "nat option \<Rightarrow> bool \<Rightarrow> Billboard" where
  "new_Billboard img sh =
     \<lparr>bb_image = img, bb_show = sh, bb_position = Cartesian3_ZERO, bb_width = 0,
      bb_height = 0, bb_color = Color_WHITE, bb_scale = 1, bb_sizeInMeters = False\<rparr>"

text \<open>Modelled from the spec: \<open>add(descriptor)\<close> appends a billboard and returns its handle.\<close>

definition BillboardCollection_add ::
  "BillboardCollection \<Rightarrow> nat option \<Rightarrow> bool \<Rightarrow> BillboardCollection \<times> nat" where
  "BillboardCollection_add bc img sh =
     (\<lparr>billboards = billboards bc @ [(nextHandle bc, new_Billboard img sh)],
       nextHandle = Suc (nextHandle bc)\<rparr>,
      nextHandle bc)"

text \<open>
  Modelled from the spec: \<open>remove(handle)\<close> takes the billboard out of the collection;
  an undefined handle removes nothing.
\<close>

definition BillboardCollection_remove ::
  "BillboardCollection \<Rightarrow> nat option \<Rightarrow> BillboardCollection" where
  "BillboardCollection_remove bc h =
     bc\<lparr>billboards := filter (\<lambda>(k, b). Some k \<noteq> h) (billboards bc)\<rparr>"

text \<open>
  Modelled from the spec: writing fields of the billboard behind a handle; a handle that
  is gone from the collection is left alone.
\<close>

definition modifyBillboard ::
  "BillboardCollection \<Rightarrow> nat \<Rightarrow> (Billboard \<Rightarrow> Billboard) \<Rightarrow> BillboardCollection" where
  "modifyBillboard bc h f =
     bc\<lparr>billboards := map (\<lambda>(k, b). if k = h then (k, f b) else (k, b)) (billboards bc)\<rparr>"


section \<open>Particles and bursts\<close>

text \<open>
  Modelled from the spec: \<open>Particle.js\<close> and \<open>ParticleBurst.js\<close> are not among the
  sources. The attributes are those of section 3 of the spec; \<open>billboard\<close> is the
  back-reference to at most one entry of the collection. A fresh particle has no billboard
  and age zero.
\<close>

record Particle =
  mass :: real
  position :: Cartesian3
  velocity :: Cartesian3
  life :: real
  p_image :: "nat option"
  startColor :: Color
  endColor :: Color
  startScale :: real
  endScale :: real
  imageSize :: Cartesian2
  age :: real
  normalizedAge :: real
  billboard :: "nat option"

text \<open>Modelled from the spec: a new particle, with no billboard and age zero.\<close>

definition new_Particle :: Particle where
  "new_Particle =
     \<lparr>mass = 1, position = Cartesian3_ZERO, velocity = Cartesian3_ZERO, life = MAX_VALUE,
      p_image = None, startColor = Color_WHITE, endColor = Color_WHITE, startScale = 1,
      endScale = 1, imageSize = (1, 1), age = 0, normalizedAge = 0, billboard = None\<rparr>"

text \<open>
  Modelled from the spec: \<open>Particle.update\<close>, the per-frame update of one particle, step
  by step as section 4.3 of the spec gives it. It returns whether the particle remains
  alive, and the particle as the call leaves it.
\<close>

definition Particle_update ::
  "Particle \<Rightarrow> real \<Rightarrow> (Particle \<Rightarrow> real \<Rightarrow> Particle) option \<Rightarrow> bool \<times> Particle" where
  "Particle_update p dt particleUpdateFunction =
     (let p1 = p\<lparr>age := age p + dt\<rparr> in
      if age p1 > life p1 then (False, p1)
      else
        let p2 = p1\<lparr>normalizedAge := CesiumMath_clamp (age p1 / life p1) 0 1\<rparr>;
            p3 = (case particleUpdateFunction of None \<Rightarrow> p2 | Some f \<Rightarrow> f p2 dt);
            p4 = p3\<lparr>position :=
                      Cartesian3_add (position p3) (Cartesian3_multiplyByScalar (velocity p3) dt)\<rparr>
        in (True, p4))"

text \<open>
  Modelled from the spec: a burst, with its trigger time, its count range and its fired
  flag (\<open>_complete\<close>).
\<close>

record ParticleBurst =
  time :: real
  minimum :: real
  maximum :: real
  burst_complete :: bool

section \<open>The particle system\<close>

text \<open>
  An emitter initializes the position and the velocity of a particle; it may draw random
  numbers. The update callback gets the particle and the frame time.
\<close>

type_synonym ParticleEmitter = "random \<Rightarrow> Particle \<Rightarrow> Particle \<times> random"
type_synonym updateCallback = "Particle \<Rightarrow> real \<Rightarrow> Particle"

datatype error = TypeError | DeveloperError

text \<open>
  The frame state: the current time, in seconds, and the frame counter.
\<close>

record FrameState =
  fs_time :: real
  frameNumber :: nat

text \<open>
  The fields of \<open>ParticleSystem\<close>, under the names of the source without the leading
  underscore (\<open>s_\<close> where the name is taken by a particle's field or by the library).
  \<open>completeRaised\<close> counts the calls of \<open>raiseEvent\<close> on the \<open>complete\<close> event.
  \<open>billboardCollection\<close> is \<open>None\<close> while the field is undefined. \<open>randoms\<close> is the
  global pseudo-random generator.
\<close>

record ParticleSystem =
  s_show :: bool
  updateCallback :: "updateCallback option"
  loop :: bool
  s_image :: "nat option"
  emitter :: "ParticleEmitter option"
  bursts :: "ParticleBurst list option"
  modelMatrix :: Matrix4
  emitterModelMatrix :: Matrix4
  matrixDirty :: bool
  combinedMatrix :: Matrix4
  s_startColor :: Color
  s_endColor :: Color
  s_startScale :: real
  s_endScale :: real
  emissionRate :: real
  minimumSpeed :: real
  maximumSpeed :: real
  minimumParticleLife :: real
  maximumParticleLife :: real
  minimumMass :: real
  maximumMass :: real
  minimumImageSize :: Cartesian2
  maximumImageSize :: Cartesian2
  sizeInMeters :: bool
  lifetime :: real
  billboardCollection :: "BillboardCollection option"
  particles :: "Particle list"
  particlePool :: "Particle list"
  previousTime :: "real option"
  currentTime :: real
  carryOver :: real
  completeRaised :: nat
  isComplete :: bool
  updateParticlePool_flag :: bool
  particleEstimate :: int
  randoms :: random

subsection \<open>The constructor\<close>

record Options =
  opt_show :: "bool option"
  opt_updateCallback :: "updateCallback option"
  opt_emitter :: "ParticleEmitter option"
  opt_modelMatrix :: "Matrix4 option"
  opt_emitterModelMatrix :: "Matrix4 option"
  opt_emissionRate :: "real option"
  opt_bursts :: "ParticleBurst list option"
  opt_loop :: "bool option"
  opt_scale :: "real option"
  opt_startScale :: "real option"
  opt_endScale :: "real option"
  opt_color :: "Color option"
  opt_startColor :: "Color option"
  opt_endColor :: "Color option"
  opt_image :: "nat option"
  opt_imageSize :: "Cartesian2 option"
  opt_minimumImageSize :: "Cartesian2 option"
  opt_maximumImageSize :: "Cartesian2 option"
  opt_sizeInMeters :: "bool option"
  opt_speed :: "real option"
  opt_minimumSpeed :: "real option"
  opt_maximumSpeed :: "real option"
  opt_lifetime :: "real option"
  opt_particleLife :: "real option"
  opt_minimumParticleLife :: "real option"
  opt_maximumParticleLife :: "real option"
  opt_mass :: "real option"
  opt_minimumMass :: "real option"
  opt_maximumMass :: "real option"

text \<open>The empty options object: every property undefined.\<close>

definition EMPTY_OBJECT :: Options where
  "EMPTY_OBJECT =
     \<lparr>opt_show = None, opt_updateCallback = None, opt_emitter = None, opt_modelMatrix = None,
      opt_emitterModelMatrix = None, opt_emissionRate = None, opt_bursts = None,
      opt_loop = None, opt_scale = None, opt_startScale = None, opt_endScale = None,
      opt_color = None, opt_startColor = None, opt_endColor = None, opt_image = None,
      opt_imageSize = None, opt_minimumImageSize = None, opt_maximumImageSize = None,
      opt_sizeInMeters = None, opt_speed = None, opt_minimumSpeed = None,
      opt_maximumSpeed = None, opt_lifetime = None, opt_particleLife = None,
      opt_minimumParticleLife = None, opt_maximumParticleLife = None, opt_mass = None,
      opt_minimumMass = None, opt_maximumMass = None\<rparr>"

text \<open>The operator \<open>a ?? b\<close>: \<open>a\<close> unless it is undefined.\<close>

definition nullish :: "'a option \<Rightarrow> 'a \<Rightarrow> 'a" where
  "nullish a b = (case a of None \<Rightarrow> b | Some v \<Rightarrow> v)"

definition defaultImageSize :: Cartesian2 where
  "defaultImageSize = (1, 1)"

text \<open>
  The constructor. \<open>CircleEmitter.js\<close> is not among the sources, so the emitter that
  \<open>new CircleEmitter(0.5)\<close> builds is the parameter \<open>circleEmitter\<close>; \<open>rnd\<close> is the
  state of the global random generator.
\<close>

definition new_ParticleSystem :: "ParticleEmitter \<Rightarrow> random \<Rightarrow> Options \<Rightarrow> ParticleSystem" where
  "new_ParticleSystem circleEmitter rnd options =
     \<lparr>s_show = nullish (opt_show options) True,
      updateCallback = opt_updateCallback options,
      loop = nullish (opt_loop options) True,
      s_image = opt_image options,
      emitter = Some (nullish (opt_emitter options) circleEmitter),
      bursts = opt_bursts options,
      modelMatrix = nullish (opt_modelMatrix options) Matrix4_IDENTITY,
      emitterModelMatrix = nullish (opt_emitterModelMatrix options) Matrix4_IDENTITY,
      matrixDirty = True,
      combinedMatrix = Matrix4 0 0 0 0  0 0 0 0  0 0 0 0  0 0 0 0,
      s_startColor = nullish (opt_color options) (nullish (opt_startColor options) Color_WHITE),
      s_endColor = nullish (opt_color options) (nullish (opt_endColor options) Color_WHITE),
      s_startScale = nullish (opt_scale options) (nullish (opt_startScale options) 1),
      s_endScale = nullish (opt_scale options) (nullish (opt_endScale options) 1),
      emissionRate = nullish (opt_emissionRate options) 5,
      minimumSpeed = nullish (opt_speed options) (nullish (opt_minimumSpeed options) 1),
      maximumSpeed = nullish (opt_speed options) (nullish (opt_maximumSpeed options) 1),
      minimumParticleLife =
        nullish (opt_particleLife options) (nullish (opt_minimumParticleLife options) 5),
      maximumParticleLife =
        nullish (opt_particleLife options) (nullish (opt_maximumParticleLife options) 5),
      minimumMass = nullish (opt_mass options) (nullish (opt_minimumMass options) 1),
      maximumMass = nullish (opt_mass options) (nullish (opt_maximumMass options) 1),
      minimumImageSize =
        nullish (opt_imageSize options) (nullish (opt_minimumImageSize options) defaultImageSize),
      maximumImageSize =
        nullish (opt_imageSize options) (nullish (opt_maximumImageSize options) defaultImageSize),
      sizeInMeters = nullish (opt_sizeInMeters options) False,
      lifetime = nullish (opt_lifetime options) MAX_VALUE,
      billboardCollection = None,
      particles = [],
      particlePool = [],
      previousTime = None,
      currentTime = 0,
      carryOver = 0,
      completeRaised = 0,
      isComplete = False,
      updateParticlePool_flag = True,
      particleEstimate = 0,
      randoms = rnd\<rparr>"

subsection \<open>The setters that invalidate the pool estimate\<close>

text \<open>
  The setters of \<open>bursts\<close>, \<open>emissionRate\<close> and \<open>maximumParticleLife\<close> (lines 183-186,
  304-310, 373-379). The debug check \<open>Check.typeOf.number.greaterThanOrEquals\<close> throws
  a \<open>DeveloperError\<close> on a value below zero.
\<close>

definition set_bursts :: "ParticleBurst list option \<Rightarrow> ParticleSystem \<Rightarrow> ParticleSystem" where
  "set_bursts v s = s\<lparr>bursts := v, updateParticlePool_flag := True\<rparr>"

definition set_emissionRate :: "real \<Rightarrow> ParticleSystem \<Rightarrow> error + ParticleSystem" where
  "set_emissionRate v s =
     (if v < 0 then Inl DeveloperError
      else Inr (s\<lparr>emissionRate := v, updateParticlePool_flag := True\<rparr>))"

definition set_maximumParticleLife :: "real \<Rightarrow> ParticleSystem \<Rightarrow> error + ParticleSystem" where
  "set_maximumParticleLife v s =
     (if v < 0 then Inl DeveloperError
      else Inr (s\<lparr>maximumParticleLife := v, updateParticlePool_flag := True\<rparr>))"

subsection \<open>The setter of the lifetime\<close>

text \<open>
  The setter of \<open>lifetime\<close> (lines 480-485): after the same debug check it stores the
  value. It touches neither the elapsed time nor the bursts.
\<close>

definition set_lifetime :: "real \<Rightarrow> ParticleSystem \<Rightarrow> error + ParticleSystem" where
  "set_lifetime v s = (if v < 0 then Inl DeveloperError else Inr (s\<lparr>lifetime := v\<rparr>))"

subsection \<open>The pool\<close>

text \<open>
  The helper functions below are only called from \<open>update\<close>, after it has constructed
  the billboard collection (lines 709-711). They take the constructed collection as an
  argument and return it as they leave it, next to the system.
\<close>

text \<open>The loop of lines 533-544, \<open>n\<close> being the number of rounds still to run.\<close>

fun addToPool ::
  "nat \<Rightarrow> nat option \<Rightarrow> BillboardCollection \<Rightarrow> Particle list
     \<Rightarrow> BillboardCollection \<times> Particle list" where
  "addToPool 0 img bc pool = (bc, pool)"
| "addToPool (Suc n) img bc pool =
     (let (bc', h) = BillboardCollection_add bc img False;
          particle = new_Particle\<lparr>billboard := Some h\<rparr>
      in addToPool n img bc' (pool @ [particle]))"

definition burstAmount :: "ParticleBurst list option \<Rightarrow> real" where
  "burstAmount bs = (case bs of None \<Rightarrow> 0 | Some l \<Rightarrow> foldl (\<lambda>a b. a + maximum b) 0 l)"

definition updateParticlePool ::
  "ParticleSystem \<Rightarrow> BillboardCollection \<Rightarrow> ParticleSystem \<times> BillboardCollection" where
  "updateParticlePool system bc =
     (let emissionRate' = emissionRate system;
          life' = maximumParticleLife system;
          particleEstimate' = \<lceil>emissionRate' * life' + burstAmount (bursts system)\<rceil>;
          numToAdd =
            max (particleEstimate' - int (length (particles system))
                   - int (length (particlePool system))) 0;
          (bc', pool') = addToPool (nat numToAdd) (s_image system) bc (particlePool system)
      in (system\<lparr>particlePool := pool', particleEstimate := particleEstimate'\<rparr>, bc'))"

text \<open>
  \<open>pop\<close> on the pool takes its last element; on the empty pool it yields undefined and
  a new particle is made.
\<close>

definition getOrCreateParticle :: "ParticleSystem \<Rightarrow> Particle \<times> ParticleSystem" where
  "getOrCreateParticle system =
     (if particlePool system = [] then (new_Particle, system)
      else (last (particlePool system),
            system\<lparr>particlePool := butlast (particlePool system)\<rparr>))"

definition addParticleToPool :: "ParticleSystem \<Rightarrow> Particle \<Rightarrow> ParticleSystem" where
  "addParticleToPool system particle =
     system\<lparr>particlePool := particlePool system @ [particle]\<rparr>"

text \<open>
  \<open>freeParticlePool\<close> (lines 563-578). When \<open>start\<close> is negative the loop starts at a
  negative index, \<open>particlePool[i]\<close> is undefined there and reading its \<open>_billboard\<close>
  throws a \<open>TypeError\<close>.
\<close>

definition freeParticlePool ::
  "ParticleSystem \<Rightarrow> BillboardCollection \<Rightarrow> error + ParticleSystem \<times> BillboardCollection" where
  "freeParticlePool system bc =
     (let numParticles = int (length (particles system));
          numInPool = int (length (particlePool system));
          estimate = particleEstimate system;
          start = numInPool - max (estimate - numParticles - numInPool) 0
      in if start < 0 then Inl TypeError
         else Inr
           (system\<lparr>particlePool := take (nat start) (particlePool system)\<rparr>,
            foldl (\<lambda>c p. BillboardCollection_remove c (billboard p)) bc
              (drop (nat start) (particlePool system))))"

subsection \<open>Billboards of particles\<close>

definition removeBillboard :: "BillboardCollection \<Rightarrow> Particle \<Rightarrow> BillboardCollection" where
  "removeBillboard bc particle =
     (case billboard particle of
        None \<Rightarrow> bc
      | Some h \<Rightarrow> modifyBillboard bc h (\<lambda>b. b\<lparr>bb_show := False\<rparr>))"

definition updateBillboard ::
  "ParticleSystem \<Rightarrow> BillboardCollection \<Rightarrow> Particle \<Rightarrow> BillboardCollection \<times> Particle" where
  "updateBillboard system bc particle =
     (let (bc1, h) =
            (case billboard particle of
               None \<Rightarrow> BillboardCollection_add bc (p_image particle) True
             | Some h \<Rightarrow> (bc, h));
          particle' = particle\<lparr>billboard := Some h\<rparr>;
          r = CesiumMath_lerp (fst (startColor particle')) (fst (endColor particle'))
                (normalizedAge particle');
          g = CesiumMath_lerp (fst (snd (startColor particle'))) (fst (snd (endColor particle')))
                (normalizedAge particle');
          b = CesiumMath_lerp (fst (snd (snd (startColor particle'))))
                (fst (snd (snd (endColor particle')))) (normalizedAge particle');
          a = CesiumMath_lerp (snd (snd (snd (startColor particle'))))
                (snd (snd (snd (endColor particle')))) (normalizedAge particle')
      in (modifyBillboard bc1 h
            (\<lambda>bb. bb\<lparr>bb_width := fst (imageSize particle'),
                      bb_height := snd (imageSize particle'),
                      bb_position := position particle',
                      bb_sizeInMeters := sizeInMeters system,
                      bb_show := True,
                      bb_color := (r, g, b, a),
                      bb_scale := CesiumMath_lerp (startScale particle') (endScale particle')
                                    (normalizedAge particle')\<rparr>),
          particle'))"

subsection \<open>Emission\<close>

text \<open>
  \<open>addParticle\<close> (lines 630-664) returns the system with the particle pushed to the live
  array, and the particle as pushed: the last element of \<open>particles\<close> is that object.
\<close>

definition addParticle :: "ParticleSystem \<Rightarrow> Particle \<Rightarrow> ParticleSystem \<times> Particle" where
  "addParticle system particle =
     (let p1 = particle\<lparr>startColor := s_startColor system, endColor := s_endColor system,
                         startScale := s_startScale system, endScale := s_endScale system,
                         p_image := s_image system\<rparr>;
          (l, rnd1) = randomBetween (randoms system) (minimumParticleLife system)
                        (maximumParticleLife system);
          p2 = p1\<lparr>life := l\<rparr>;
          (m, rnd2) = randomBetween rnd1 (minimumMass system) (maximumMass system);
          p3 = p2\<lparr>mass := m\<rparr>;
          (sx, rnd3) = randomBetween rnd2 (fst (minimumImageSize system))
                         (fst (maximumImageSize system));
          (sy, rnd4) = randomBetween rnd3 (snd (minimumImageSize system))
                         (snd (maximumImageSize system));
          p4 = p3\<lparr>imageSize := (sx, sy)\<rparr>;
          p5 = p4\<lparr>normalizedAge := 0, age := 0\<rparr>;
          (speed, rnd5) = randomBetween rnd4 (minimumSpeed system) (maximumSpeed system);
          p6 = p5\<lparr>velocity := Cartesian3_multiplyByScalar (velocity p5) speed\<rparr>
      in (system\<lparr>particles := particles system @ [p6], randoms := rnd5\<rparr>, p6))"

text \<open>The loop over the bursts of lines 686-693, with the running \<open>numToEmit\<close>.\<close>

fun applyBursts ::
  "real \<Rightarrow> ParticleBurst list \<Rightarrow> real \<Rightarrow> random \<Rightarrow> ParticleBurst list \<times> real \<times> random" where
  "applyBursts currentTime' [] numToEmit rnd = ([], numToEmit, rnd)"
| "applyBursts currentTime' (burst # rest) numToEmit rnd =
     (if \<not> burst_complete burst \<and> currentTime' > time burst then
        let (k, rnd') = randomBetween rnd (minimum burst) (maximum burst);
            (rest', n, rnd'') = applyBursts currentTime' rest (numToEmit + k) rnd'
        in (burst\<lparr>burst_complete := True\<rparr> # rest', n, rnd'')
      else
        let (rest', n, rnd'') = applyBursts currentTime' rest numToEmit rnd
        in (burst # rest', n, rnd''))"

definition calculateNumberToEmit :: "ParticleSystem \<Rightarrow> real \<Rightarrow> real \<times> ParticleSystem" where
  "calculateNumberToEmit system dt =
     (if isComplete system then (0, system)
      else
        let dt' = CesiumMath_mod dt (lifetime system);
            v = dt' * emissionRate system;
            numToEmit = of_int \<lfloor>v\<rfloor>;
            system1 = system\<lparr>carryOver := carryOver system + (v - numToEmit)\<rparr>;
            (numToEmit1, system2) =
              (if carryOver system1 > 1
               then (numToEmit + 1, system1\<lparr>carryOver := carryOver system1 - 1\<rparr>)
               else (numToEmit, system1))
        in case bursts system2 of
             None \<Rightarrow> (numToEmit1, system2)
           | Some bs \<Rightarrow>
               let (bs', n, rnd') = applyBursts (currentTime system2) bs numToEmit1 (randoms system2)
               in (n, system2\<lparr>bursts := Some bs', randoms := rnd'\<rparr>))"

subsection \<open>The per-frame update\<close>

text \<open>
  The loop of lines 737-749 over the live array, with its index \<open>i\<close> and its shrinking
  \<open>len\<close>. A particle is an object that \<open>update\<close> changes in place: a survivor is
  written back at its index, a dead particle goes to the end of the pool as \<open>update\<close>
  left it (the push of \<open>addParticleToPool\<close>) and the last live particle takes its
  place. The result is the array cut to \<open>len\<close> (line 750), the pool and the collection.
\<close>

function updateLoop ::
  "ParticleSystem \<Rightarrow> real \<Rightarrow> nat \<Rightarrow> nat \<Rightarrow> Particle list \<times> Particle list \<times> BillboardCollection
     \<Rightarrow> Particle list \<times> Particle list \<times> BillboardCollection" where
  "updateLoop system dt i len (ps, pool, bc) =
     (if i < len then
        (if \<not> fst (Particle_update (ps ! i) dt (updateCallback system)) then
           updateLoop system dt i (len - 1)
             (ps[i := ps ! (len - 1)],
              pool @ [snd (Particle_update (ps ! i) dt (updateCallback system))],
              removeBillboard bc (snd (Particle_update (ps ! i) dt (updateCallback system))))
         else
           updateLoop system dt (i + 1) len
             (ps[i := snd (updateBillboard system bc
                             (snd (Particle_update (ps ! i) dt (updateCallback system))))],
              pool,
              fst (updateBillboard system bc
                     (snd (Particle_update (ps ! i) dt (updateCallback system))))))
      else (take len ps, pool, bc))"
  by pat_completeness auto
termination
  by (relation "measure (\<lambda>(system, dt, i, len, st). len - i)") auto

text \<open>
  One round of the loop of lines 767-804: the particle comes from the pool, the emitter
  sets its position and velocity, both go to world coordinates, \<open>addParticle\<close> pushes it
  and \<open>updateBillboard\<close> writes the billboard of the pushed object.
\<close>

definition emitParticle ::
  "Matrix4 \<Rightarrow> ParticleEmitter \<Rightarrow> ParticleSystem \<times> BillboardCollection
     \<Rightarrow> ParticleSystem \<times> BillboardCollection" where
  "emitParticle combined em st =
     (let (system, bc) = st;
          (particle, system1) = getOrCreateParticle system;
          (p1, rnd1) = em (randoms system1) particle;
          system2 = system1\<lparr>randoms := rnd1\<rparr>;
          rotatedVelocityScratch = Cartesian3_add (position p1) (velocity p1);
          rotatedVelocityScratch' = Matrix4_multiplyByPoint combined rotatedVelocityScratch;
          p2 = p1\<lparr>position := Matrix4_multiplyByPoint combined (position p1)\<rparr>;
          p3 = p2\<lparr>velocity := Cartesian3_subtract rotatedVelocityScratch' (position p2)\<rparr>;
          p4 = p3\<lparr>velocity := Cartesian3_normalize (velocity p3)\<rparr>;
          (system3, p5) = addParticle system2 p4;
          (bc', p6) = updateBillboard system3 bc p5
      in (system3\<lparr>particles := (particles system3)[length (particles system3) - 1 := p6]\<rparr>,
          bc'))"

function emitLoop ::
  "Matrix4 \<Rightarrow> ParticleEmitter \<Rightarrow> real \<Rightarrow> nat \<Rightarrow> ParticleSystem \<times> BillboardCollection
     \<Rightarrow> ParticleSystem \<times> BillboardCollection" where
  "emitLoop combined em numToEmit i st =
     (if real i < numToEmit then emitLoop combined em numToEmit (i + 1) (emitParticle combined em st)
      else st)"
  by pat_completeness auto
termination
  by (relation "measure (\<lambda>(combined, em, numToEmit, i, st). nat \<lceil>numToEmit\<rceil> - i)")
     (auto intro!: diff_less_mono2 simp: zless_nat_eq_int_zless less_ceiling_iff)

text \<open>The loop of lines 820-822.\<close>

definition resetBursts :: "ParticleBurst list \<Rightarrow> ParticleBurst list" where
  "resetBursts bs = map (\<lambda>b. b\<lparr>burst_complete := False\<rparr>) bs"

text \<open>
  \<open>ParticleSystem.prototype.update\<close> (lines 704-834), section by section. The first
  section constructs the collection on first use and resizes the pool when the
  configuration has changed (lines 709-716).
\<close>

definition preparePool :: "ParticleSystem \<Rightarrow> ParticleSystem \<times> BillboardCollection" where
  "preparePool this =
     (let bc0 = (case billboardCollection this of
                   None \<Rightarrow> new_BillboardCollection
                 | Some c \<Rightarrow> c)
      in if updateParticlePool_flag this
         then (let (t, c) = updateParticlePool this bc0
               in (t\<lparr>updateParticlePool_flag := False\<rparr>, c))
         else (this, bc0))"

text \<open>The frame time (lines 719-726).\<close>

definition frameTime :: "FrameState \<Rightarrow> ParticleSystem \<Rightarrow> real" where
  "frameTime frameState this =
     (let dt = (case previousTime this of
                  None \<Rightarrow> 0
                | Some t \<Rightarrow> fs_time frameState - t)
      in if dt < 0 then 0 else dt)"

text \<open>Update the particles and remove the dead ones (lines 735-750).\<close>

definition updateParticles ::
  "real \<Rightarrow> ParticleSystem \<times> BillboardCollection \<Rightarrow> ParticleSystem \<times> BillboardCollection" where
  "updateParticles dt st =
     (let (this, bc) = st;
          (ps, pool, bc') =
            updateLoop this dt 0 (length (particles this)) (particles this, particlePool this, bc)
      in (this\<lparr>particles := ps, particlePool := pool\<rparr>, bc'))"

text \<open>Emit \<open>numToEmit\<close> particles when there is an emitter (lines 754-805).\<close>

definition emitParticles ::
  "real \<Rightarrow> ParticleSystem \<times> BillboardCollection \<Rightarrow> ParticleSystem \<times> BillboardCollection" where
  "emitParticles numToEmit st =
     (let (this, bc) = st
      in case emitter this of
           None \<Rightarrow> (this, bc)
         | Some em \<Rightarrow>
             if numToEmit > 0 then
               let t = (if matrixDirty this
                        then this\<lparr>combinedMatrix :=
                                    Matrix4_multiply (modelMatrix this) (emitterModelMatrix this),
                                  matrixDirty := False\<rparr>
                        else this)
               in emitLoop (combinedMatrix t) em numToEmit 0 (t, bc)
             else (this, bc))"

text \<open>
  Advance the elapsed time, then wrap it or complete the system at the end of the
  lifetime (lines 808-828).
\<close>

definition advanceTime :: "FrameState \<Rightarrow> real \<Rightarrow> ParticleSystem \<Rightarrow> ParticleSystem" where
  "advanceTime frameState dt this =
     (let this1 = this\<lparr>previousTime := Some (fs_time frameState),
                        currentTime := currentTime this + dt\<rparr>
      in if lifetime this1 \<noteq> MAX_VALUE \<and> currentTime this1 > lifetime this1 then
           (if loop this1 then
              this1\<lparr>currentTime := CesiumMath_mod (currentTime this1) (lifetime this1),
                    bursts := map_option resetBursts (bursts this1)\<rparr>
            else
              this1\<lparr>isComplete := True, completeRaised := Suc (completeRaised this1)\<rparr>)
         else this1)"

text \<open>
  The whole of \<open>update\<close>. Drawing the collection (\<open>billboardCollection.update\<close>, line
  807) does not change the state modelled here. The collection is stored back into the
  system at the end.
\<close>

definition update :: "FrameState \<Rightarrow> ParticleSystem \<Rightarrow> error + ParticleSystem" where
  "update frameState this =
     (if \<not> s_show this then Inr this
      else
        let (this1, bc1) = preparePool this;
            dt = frameTime frameState this1;
            (this2, bc2) = updateParticles dt (this1, bc1);
            (numToEmit, this3) = calculateNumberToEmit this2 dt;
            (this4, bc3) = emitParticles numToEmit (this3, bc2);
            this5 = advanceTime frameState dt this4
        in if frameNumber frameState mod 120 = 0 then
             (case freeParticlePool this5 bc3 of
                Inl e \<Rightarrow> Inl e
              | Inr (this6, bc4) \<Rightarrow> Inr (this6\<lparr>billboardCollection := Some bc4\<rparr>))
           else Inr (this5\<lparr>billboardCollection := Some bc3\<rparr>))"

text \<open>A run of frames: \<open>update\<close> on each frame state in turn, up to the first error.\<close>

fun updates :: "FrameState list \<Rightarrow> ParticleSystem \<Rightarrow> error + ParticleSystem" where
  "updates [] system = Inr system"
| "updates (f # fs) system =
     (case update f system of Inl e \<Rightarrow> Inl e | Inr system' \<Rightarrow> updates fs system')"

section \<open>Notions and inputs for the theorems\<close>

text \<open>Sequencing of two calls, the second on the result of the first unless it threw.\<close>

definition andThen :: "error + 'a \<Rightarrow> ('a \<Rightarrow> error + 'b) \<Rightarrow> error + 'b" where
  "andThen r f = (case r of Inl e \<Rightarrow> Inl e | Inr v \<Rightarrow> f v)"

text \<open>
  The state \<open>update\<close> has built when it reaches the release of the pool (line 830), and
  the collection at that point.
\<close>

definition beforeFree :: "FrameState \<Rightarrow> ParticleSystem \<Rightarrow> ParticleSystem \<times> BillboardCollection" where
  "beforeFree f s =
     (let st1 = preparePool s;
          dt = frameTime f s;
          st2 = updateParticles dt st1;
          r = calculateNumberToEmit (fst st2) dt;
          st4 = emitParticles (fst r) (snd r, snd st2)
      in (advanceTime f dt (fst st4), snd st4))"

text \<open>
  The system as lines 756-765 leave it when particles are to be emitted: the combined
  matrix is the product of the model matrix and the emitter model matrix, computed when
  the matrices are dirty. \<open>emissionStart\<close> is the state and the collection with which
  \<open>update\<close> enters the loop of lines 767-804 when it emits.
\<close>

definition combineMatrix :: "ParticleSystem \<Rightarrow> ParticleSystem" where
  "combineMatrix this =
     (if matrixDirty this
      then this\<lparr>combinedMatrix := Matrix4_multiply (modelMatrix this) (emitterModelMatrix this),
                matrixDirty := False\<rparr>
      else this)"

definition emissionStart :: "FrameState \<Rightarrow> ParticleSystem \<Rightarrow> ParticleSystem \<times> BillboardCollection" where
  "emissionStart f s =
     (let st1 = preparePool s;
          dt = frameTime f s;
          st2 = updateParticles dt st1;
          r = calculateNumberToEmit (fst st2) dt
      in (combineMatrix (snd r), snd st2))"

text \<open>
  Whether \<open>update\<close> of a particle by \<open>dt\<close> leaves it alive, and the particle as that
  call leaves it, with the update callback of the system; and a particle without its
  reference to a billboard.
\<close>

definition survives :: "ParticleSystem \<Rightarrow> real \<Rightarrow> Particle \<Rightarrow> bool" where
  "survives s dt p = fst (Particle_update p dt (updateCallback s))"

definition advanced :: "ParticleSystem \<Rightarrow> real \<Rightarrow> Particle \<Rightarrow> Particle" where
  "advanced s dt p = snd (Particle_update p dt (updateCallback s))"

definition withoutBillboard :: "Particle \<Rightarrow> Particle" where
  "withoutBillboard p = p\<lparr>billboard := None\<rparr>"

text \<open>
  The update of the live particles as section 4.4, step 5, of the spec words it, one
  particle after the other in the order of a list: a survivor has its billboard written,
  a dead particle has its billboard hidden and goes to the pool. The result is the list
  of the survivors, the list of the dead and the collection.
\<close>

fun updateInOrder ::
  "ParticleSystem \<Rightarrow> real \<Rightarrow> Particle list \<Rightarrow> BillboardCollection
     \<Rightarrow> Particle list \<times> Particle list \<times> BillboardCollection" where
  "updateInOrder s dt [] bc = ([], [], bc)"
| "updateInOrder s dt (p # ps) bc =
     (if survives s dt p then
        let (bc1, q) = updateBillboard s bc (advanced s dt p);
            (live, dead, bc') = updateInOrder s dt ps bc1
        in (q # live, dead, bc')
      else
        let (live, dead, bc') = updateInOrder s dt ps (removeBillboard bc (advanced s dt p))
        in (live, advanced s dt p # dead, bc'))"


text \<open>What \<open>updateBillboard\<close> writes for a particle (lines 593-627).\<close>

definition billboardOf :: "ParticleSystem \<Rightarrow> Particle \<Rightarrow> Billboard \<Rightarrow> Billboard" where
  "billboardOf s p =
     (\<lambda>bb. bb\<lparr>bb_width := fst (imageSize p),
        bb_height := snd (imageSize p),
        bb_position := position p,
        bb_sizeInMeters := sizeInMeters s,
        bb_show := True,
        bb_color :=
          (CesiumMath_lerp (fst (startColor p)) (fst (endColor p)) (normalizedAge p),
           CesiumMath_lerp (fst (snd (startColor p))) (fst (snd (endColor p))) (normalizedAge p),
           CesiumMath_lerp (fst (snd (snd (startColor p)))) (fst (snd (snd (endColor p))))
             (normalizedAge p),
           CesiumMath_lerp (snd (snd (snd (startColor p)))) (snd (snd (snd (endColor p))))
             (normalizedAge p)),
        bb_scale := CesiumMath_lerp (startScale p) (endScale p) (normalizedAge p)\<rparr>)"

text \<open>A burst is due when it has not fired and the elapsed time is beyond its time.\<close>

definition due :: "real \<Rightarrow> ParticleBurst \<Rightarrow> bool" where
  "due t b = (\<not> burst_complete b \<and> time b < t)"

text \<open>
  Concrete inputs: a random generator that always returns 0, an emitter that puts every
  particle at the origin with velocity \<open>(0, 0, 1)\<close>, a frame state, systems as the
  constructor builds them, and states of such systems later in their life.
\<close>

definition noRandom :: random where
  "noRandom = (\<lambda>n. 0)"

definition upEmitter :: ParticleEmitter where
  "upEmitter rnd p = (p\<lparr>position := (0, 0, 0), velocity := (0, 0, 1)\<rparr>, rnd)"

definition frame :: "real \<Rightarrow> nat \<Rightarrow> FrameState" where
  "frame t n = \<lparr>fs_time = t, frameNumber = n\<rparr>"

definition sysHidden :: ParticleSystem where
  "sysHidden = new_ParticleSystem upEmitter noRandom (EMPTY_OBJECT\<lparr>opt_show := Some False\<rparr>)"

definition sysRate1 :: ParticleSystem where
  "sysRate1 = new_ParticleSystem upEmitter noRandom
     (EMPTY_OBJECT\<lparr>opt_emissionRate := Some 1, opt_lifetime := Some 10\<rparr>)"

definition sysComplete :: ParticleSystem where
  "sysComplete = new_ParticleSystem upEmitter noRandom
     (EMPTY_OBJECT\<lparr>opt_loop := Some False, opt_lifetime := Some 5, opt_emissionRate := Some 0\<rparr>)"

definition sysPool :: ParticleSystem where
  "sysPool = new_ParticleSystem upEmitter noRandom
     (EMPTY_OBJECT\<lparr>opt_emissionRate := Some 1, opt_particleLife := Some 5\<rparr>)"

definition sysLoop :: ParticleSystem where
  "sysLoop = (new_ParticleSystem upEmitter noRandom
     (EMPTY_OBJECT\<lparr>opt_emissionRate := Some 0, opt_lifetime := Some 10,
        opt_bursts := Some [\<lparr>time = 1, minimum = 0, maximum = 0, burst_complete = True\<rparr>]\<rparr>))
     \<lparr>previousTime := Some 100, currentTime := 7\<rparr>"

definition sysBurst :: ParticleSystem where
  "sysBurst = new_ParticleSystem upEmitter noRandom
     (EMPTY_OBJECT\<lparr>opt_emissionRate := Some 0,
        opt_bursts := Some [\<lparr>time = 0, minimum = 3, maximum = 3, burst_complete = False\<rparr>]\<rparr>)"

definition scale2 :: Matrix4 where
  "scale2 = Matrix4 2 0 0 0  0 2 0 0  0 0 2 0  0 0 0 1"

definition sysSpeed5 :: ParticleSystem where
  "sysSpeed5 = new_ParticleSystem upEmitter noRandom (EMPTY_OBJECT\<lparr>opt_speed := Some 5\<rparr>)"

definition liveParticle :: Particle where
  "liveParticle = new_Particle\<lparr>life := 5, age := 1, billboard := Some 0\<rparr>"

definition oldParticle :: Particle where
  "oldParticle = new_Particle\<lparr>life := 1, age := 1 / 2, billboard := Some 1\<rparr>"

definition twoBillboards :: BillboardCollection where
  "twoBillboards =
     \<lparr>billboards = [(0, new_Billboard None True), (1, new_Billboard None True)], nextHandle = 2\<rparr>"

definition sysIdle :: ParticleSystem where
  "sysIdle = (new_ParticleSystem upEmitter noRandom
     (EMPTY_OBJECT\<lparr>opt_emissionRate := Some 1, opt_lifetime := Some 10\<rparr>))
     \<lparr>billboardCollection := Some twoBillboards, particles := [liveParticle, oldParticle],
      previousTime := Some 3, currentTime := 3, carryOver := 1 / 2\<rparr>"


text \<open>A looping system with the lifetime 10 that emits nothing.\<close>

definition sysQuiet :: ParticleSystem where
  "sysQuiet = new_ParticleSystem upEmitter noRandom
     (EMPTY_OBJECT\<lparr>opt_emissionRate := Some 0, opt_lifetime := Some 10\<rparr>)"

text \<open>
  A transform that turns the z axis onto the x axis and translates by \<open>(1, 2, 3)\<close>, its
  product with the scaling by 2, and a system with the one as model matrix and the other
  as emitter model matrix.
\<close>

definition turnZX :: Matrix4 where
  "turnZX = Matrix4 0 0 (- 1) 0  0 1 0 0  1 0 0 0  1 2 3 1"

definition turn2 :: Matrix4 where
  "turn2 = Matrix4 0 0 (- 2) 0  0 2 0 0  2 0 0 0  1 2 3 1"

definition sysWorld :: ParticleSystem where
  "sysWorld = new_ParticleSystem upEmitter noRandom
     (EMPTY_OBJECT\<lparr>opt_emissionRate := Some 2, opt_lifetime := Some 10, opt_speed := Some 5,
        opt_modelMatrix := Some turnZX, opt_emitterModelMatrix := Some scale2\<rparr>)"


section \<open>Basic facts\<close>

declare updateLoop.simps [simp del]
declare emitLoop.simps [simp del]

lemma andThen_simps [simp]: "andThen (Inl e) f = Inl e" "andThen (Inr v) f = f v"
  by (simp_all add: andThen_def)

lemma MAX_VALUE_large: "1000 < MAX_VALUE"
  by (simp add: MAX_VALUE_def)

lemma updateLoop_done [simp]:
  "\<not> i < len \<Longrightarrow> updateLoop s dt i len (ps, pool, bc) = (take len ps, pool, bc)"
  by (simp add: updateLoop.simps)

lemma emitLoop_done [simp]: "\<not> real i < n \<Longrightarrow> emitLoop m em n i st = st"
  by (simp add: emitLoop.simps)

text \<open>The pool loop adds \<open>n\<close> particles, each with a new hidden billboard.\<close>

lemma addToPool_eq:
  "addToPool n img bc pool =
     (\<lparr>billboards = billboards bc @ map (\<lambda>j. (nextHandle bc + j, new_Billboard img False)) [0..<n],
       nextHandle = nextHandle bc + n\<rparr>,
      pool @ map (\<lambda>j. new_Particle\<lparr>billboard := Some (nextHandle bc + j)\<rparr>) [0..<n])"
proof (induction n arbitrary: bc pool)
  case 0
  show ?case by simp
next
  case (Suc n)
  have upt: "[0..<Suc n] = 0 # map Suc [0..<n]"
    by (simp add: upt_conv_Cons map_Suc_upt del: upt_Suc)
  show ?case
    by (simp add: Suc.IH BillboardCollection_add_def upt o_def del: upt_Suc)
qed

text \<open>Unfolding \<open>update\<close> on a concrete system.\<close>

lemmas update_eval =
  new_ParticleSystem_def EMPTY_OBJECT_def nullish_def frame_def update_def preparePool_def
  updateParticlePool_def burstAmount_def addToPool_eq frameTime_def updateParticles_def
  calculateNumberToEmit_def CesiumMath_mod_def emitParticles_def advanceTime_def
  freeParticlePool_def resetBursts_def new_BillboardCollection_def Let_def

lemmas sys_eval = new_ParticleSystem_def EMPTY_OBJECT_def nullish_def frame_def

subsection \<open>What each section of update leaves alone\<close>

lemma preparePool_keeps [simp]:
  "s_show (fst (preparePool s)) = s_show s"
  "loop (fst (preparePool s)) = loop s"
  "lifetime (fst (preparePool s)) = lifetime s"
  "carryOver (fst (preparePool s)) = carryOver s"
  "currentTime (fst (preparePool s)) = currentTime s"
  "previousTime (fst (preparePool s)) = previousTime s"
  "isComplete (fst (preparePool s)) = isComplete s"
  "completeRaised (fst (preparePool s)) = completeRaised s"
  "bursts (fst (preparePool s)) = bursts s"
  "particles (fst (preparePool s)) = particles s"
  "emitter (fst (preparePool s)) = emitter s"
  "emissionRate (fst (preparePool s)) = emissionRate s"
  "updateCallback (fst (preparePool s)) = updateCallback s"
  "randoms (fst (preparePool s)) = randoms s"
  by (simp_all add: preparePool_def updateParticlePool_def Let_def split_def)

lemma frameTime_preparePool [simp]: "frameTime f (fst (preparePool s)) = frameTime f s"
  by (simp add: frameTime_def)

lemma frameTime_nonneg [simp]: "0 \<le> frameTime f s"
  by (simp add: frameTime_def Let_def)

lemma updateParticles_keeps [simp]:
  "s_show (fst (updateParticles dt st)) = s_show (fst st)"
  "loop (fst (updateParticles dt st)) = loop (fst st)"
  "lifetime (fst (updateParticles dt st)) = lifetime (fst st)"
  "carryOver (fst (updateParticles dt st)) = carryOver (fst st)"
  "currentTime (fst (updateParticles dt st)) = currentTime (fst st)"
  "previousTime (fst (updateParticles dt st)) = previousTime (fst st)"
  "isComplete (fst (updateParticles dt st)) = isComplete (fst st)"
  "completeRaised (fst (updateParticles dt st)) = completeRaised (fst st)"
  "bursts (fst (updateParticles dt st)) = bursts (fst st)"
  "emitter (fst (updateParticles dt st)) = emitter (fst st)"
  "emissionRate (fst (updateParticles dt st)) = emissionRate (fst st)"
  "particleEstimate (fst (updateParticles dt st)) = particleEstimate (fst st)"
  "updateParticlePool_flag (fst (updateParticles dt st)) = updateParticlePool_flag (fst st)"
  "randoms (fst (updateParticles dt st)) = randoms (fst st)"
  by (simp_all add: updateParticles_def split_def Let_def)

lemma calculateNumberToEmit_keeps [simp]:
  "s_show (snd (calculateNumberToEmit s dt)) = s_show s"
  "loop (snd (calculateNumberToEmit s dt)) = loop s"
  "lifetime (snd (calculateNumberToEmit s dt)) = lifetime s"
  "currentTime (snd (calculateNumberToEmit s dt)) = currentTime s"
  "previousTime (snd (calculateNumberToEmit s dt)) = previousTime s"
  "isComplete (snd (calculateNumberToEmit s dt)) = isComplete s"
  "completeRaised (snd (calculateNumberToEmit s dt)) = completeRaised s"
  "emitter (snd (calculateNumberToEmit s dt)) = emitter s"
  "emissionRate (snd (calculateNumberToEmit s dt)) = emissionRate s"
  "particles (snd (calculateNumberToEmit s dt)) = particles s"
  "particlePool (snd (calculateNumberToEmit s dt)) = particlePool s"
  "particleEstimate (snd (calculateNumberToEmit s dt)) = particleEstimate s"
  "updateParticlePool_flag (snd (calculateNumberToEmit s dt)) = updateParticlePool_flag s"
  by (simp_all add: calculateNumberToEmit_def Let_def split_def split: option.split)

lemma emitParticle_keeps [simp]:
  "s_show (fst (emitParticle m em st)) = s_show (fst st)"
  "loop (fst (emitParticle m em st)) = loop (fst st)"
  "lifetime (fst (emitParticle m em st)) = lifetime (fst st)"
  "carryOver (fst (emitParticle m em st)) = carryOver (fst st)"
  "currentTime (fst (emitParticle m em st)) = currentTime (fst st)"
  "previousTime (fst (emitParticle m em st)) = previousTime (fst st)"
  "isComplete (fst (emitParticle m em st)) = isComplete (fst st)"
  "completeRaised (fst (emitParticle m em st)) = completeRaised (fst st)"
  "bursts (fst (emitParticle m em st)) = bursts (fst st)"
  "emitter (fst (emitParticle m em st)) = emitter (fst st)"
  "emissionRate (fst (emitParticle m em st)) = emissionRate (fst st)"
  "particleEstimate (fst (emitParticle m em st)) = particleEstimate (fst st)"
  "updateParticlePool_flag (fst (emitParticle m em st)) = updateParticlePool_flag (fst st)"
  by (simp_all add: emitParticle_def addParticle_def getOrCreateParticle_def split_def Let_def)

lemma emitLoop_keeps [simp]:
  "s_show (fst (emitLoop m em n i st)) = s_show (fst st)"
  "loop (fst (emitLoop m em n i st)) = loop (fst st)"
  "lifetime (fst (emitLoop m em n i st)) = lifetime (fst st)"
  "carryOver (fst (emitLoop m em n i st)) = carryOver (fst st)"
  "currentTime (fst (emitLoop m em n i st)) = currentTime (fst st)"
  "previousTime (fst (emitLoop m em n i st)) = previousTime (fst st)"
  "isComplete (fst (emitLoop m em n i st)) = isComplete (fst st)"
  "completeRaised (fst (emitLoop m em n i st)) = completeRaised (fst st)"
  "bursts (fst (emitLoop m em n i st)) = bursts (fst st)"
  "emitter (fst (emitLoop m em n i st)) = emitter (fst st)"
  "emissionRate (fst (emitLoop m em n i st)) = emissionRate (fst st)"
  "particleEstimate (fst (emitLoop m em n i st)) = particleEstimate (fst st)"
  "updateParticlePool_flag (fst (emitLoop m em n i st)) = updateParticlePool_flag (fst st)"
  by (induction m em n i st rule: emitLoop.induct; subst emitLoop.simps; simp)+

lemma emitParticles_keeps [simp]:
  "s_show (fst (emitParticles n st)) = s_show (fst st)"
  "loop (fst (emitParticles n st)) = loop (fst st)"
  "lifetime (fst (emitParticles n st)) = lifetime (fst st)"
  "carryOver (fst (emitParticles n st)) = carryOver (fst st)"
  "currentTime (fst (emitParticles n st)) = currentTime (fst st)"
  "previousTime (fst (emitParticles n st)) = previousTime (fst st)"
  "isComplete (fst (emitParticles n st)) = isComplete (fst st)"
  "completeRaised (fst (emitParticles n st)) = completeRaised (fst st)"
  "bursts (fst (emitParticles n st)) = bursts (fst st)"
  "emitter (fst (emitParticles n st)) = emitter (fst st)"
  "emissionRate (fst (emitParticles n st)) = emissionRate (fst st)"
  "particleEstimate (fst (emitParticles n st)) = particleEstimate (fst st)"
  "updateParticlePool_flag (fst (emitParticles n st)) = updateParticlePool_flag (fst st)"
  by (simp_all add: emitParticles_def split_def Let_def split: option.split)

lemma emitParticles_zero [simp]: "n \<le> 0 \<Longrightarrow> emitParticles n st = st"
  by (simp add: emitParticles_def split_def split: option.split)

lemma advanceTime_keeps [simp]:
  "s_show (advanceTime f dt s) = s_show s"
  "loop (advanceTime f dt s) = loop s"
  "lifetime (advanceTime f dt s) = lifetime s"
  "carryOver (advanceTime f dt s) = carryOver s"
  "previousTime (advanceTime f dt s) = Some (fs_time f)"
  "emitter (advanceTime f dt s) = emitter s"
  "emissionRate (advanceTime f dt s) = emissionRate s"
  "particles (advanceTime f dt s) = particles s"
  "particlePool (advanceTime f dt s) = particlePool s"
  "particleEstimate (advanceTime f dt s) = particleEstimate s"
  "updateParticlePool_flag (advanceTime f dt s) = updateParticlePool_flag s"
  by (simp_all add: advanceTime_def Let_def)

subsection \<open>The result of update in terms of its sections\<close>

lemma update_sections:
  "s_show s \<Longrightarrow>
   update f s =
     (if frameNumber f mod 120 = 0 then
        (case freeParticlePool (fst (beforeFree f s)) (snd (beforeFree f s)) of
           Inl e \<Rightarrow> Inl e
         | Inr (t, c) \<Rightarrow> Inr (t\<lparr>billboardCollection := Some c\<rparr>))
      else Inr ((fst (beforeFree f s))\<lparr>billboardCollection := Some (snd (beforeFree f s))\<rparr>))"
  by (simp add: update_def beforeFree_def split_def Let_def)

lemma freeParticlePool_result:
  "freeParticlePool s bc = Inr (t, c) \<Longrightarrow> \<exists>k. t = s\<lparr>particlePool := take k (particlePool s)\<rparr>"
  by (auto simp: freeParticlePool_def Let_def split: if_splits)

lemma update_result:
  assumes "s_show s" "update f s = Inr s'"
  shows "\<exists>pool c. s' = (fst (beforeFree f s))\<lparr>particlePool := pool, billboardCollection := Some c\<rparr>"
proof (cases "frameNumber f mod 120 = 0")
  case True
  with assms obtain t c where
    fr: "freeParticlePool (fst (beforeFree f s)) (snd (beforeFree f s)) = Inr (t, c)"
    and s': "s' = t\<lparr>billboardCollection := Some c\<rparr>"
    by (auto simp: update_sections split: sum.splits)
  from freeParticlePool_result [OF fr] obtain k where
    "t = (fst (beforeFree f s))\<lparr>particlePool := take k (particlePool (fst (beforeFree f s)))\<rparr>" ..
  with s' show ?thesis by blast
next
  case False
  with assms have "s' = (fst (beforeFree f s))\<lparr>billboardCollection := Some (snd (beforeFree f s))\<rparr>"
    by (simp add: update_sections)
  then have "s' = (fst (beforeFree f s))\<lparr>particlePool := particlePool (fst (beforeFree f s)),
      billboardCollection := Some (snd (beforeFree f s))\<rparr>"
    by simp
  then show ?thesis by blast
qed

lemma beforeFree_keeps [simp]:
  "s_show (fst (beforeFree f s)) = s_show s"
  "loop (fst (beforeFree f s)) = loop s"
  "lifetime (fst (beforeFree f s)) = lifetime s"
  "emitter (fst (beforeFree f s)) = emitter s"
  "emissionRate (fst (beforeFree f s)) = emissionRate s"
  by (simp_all add: beforeFree_def Let_def)

lemma update_keeps:
  assumes "update f s = Inr s'"
  shows "s_show s' = s_show s" "loop s' = loop s" "lifetime s' = lifetime s"
    "emitter s' = emitter s" "emissionRate s' = emissionRate s"
proof -
  have "s_show s' = s_show s \<and> loop s' = loop s \<and> lifetime s' = lifetime s \<and>
    emitter s' = emitter s \<and> emissionRate s' = emissionRate s"
  proof (cases "s_show s")
    case True
    from update_result [OF True assms] obtain pool c where
      "s' = (fst (beforeFree f s))\<lparr>particlePool := pool, billboardCollection := Some c\<rparr>"
      by blast
    then show ?thesis by simp
  next
    case False
    with assms have "s' = s" by (simp add: update_def)
    then show ?thesis by simp
  qed
  then show "s_show s' = s_show s" "loop s' = loop s" "lifetime s' = lifetime s"
    "emitter s' = emitter s" "emissionRate s' = emissionRate s"
    by simp_all
qed

text \<open>Away from the frames that release the pool, \<open>update\<close> returns.\<close>

lemma update_returns:
  "frameNumber f mod 120 \<noteq> 0 \<Longrightarrow> update f s = Inr (projr (update f s))"
  by (cases "s_show s") (simp_all add: update_sections, simp add: update_def)

lemma updates_returns:
  "list_all (\<lambda>f. frameNumber f mod 120 \<noteq> 0) fs \<Longrightarrow> updates fs s = Inr (projr (updates fs s))"
proof (induction fs arbitrary: s)
  case Nil
  show ?case by simp
next
  case (Cons f fs)
  from Cons.prems have f: "frameNumber f mod 120 \<noteq> 0"
    and fs: "list_all (\<lambda>f. frameNumber f mod 120 \<noteq> 0) fs"
    by simp_all
  from update_returns [OF f] obtain s1 where u: "update f s = Inr s1" ..
  with Cons.IH [OF fs, of s1] show ?case by simp
qed

section \<open>The hidden system\<close>

text \<open>
  C8: For every system state with \<open>show = false\<close>, a call to \<open>update\<close> is a complete
  no-op: it returns with the system as it was, so no field of the system, no live
  particle, no pool entry and no billboard is modified, and the elapsed time does not
  advance.
\<close>

theorem update_hidden_is_noop:
  "\<not> s_show system \<Longrightarrow> update frameState system = Inr system"
  by (simp add: update_def)

theorem update_hidden_is_noop_witness:
  "\<not> s_show sysHidden \<and> update (frame 7 120) sysHidden = Inr sysHidden"
proof -
  have h: "\<not> s_show sysHidden"
    by (simp add: sysHidden_def new_ParticleSystem_def EMPTY_OBJECT_def nullish_def)
  from h update_hidden_is_noop [OF h, of "frame 7 120"] show ?thesis by simp
qed

section \<open>The carry-over of the emission rate\<close>

lemma calculateNumberToEmit_carryOver:
  "carryOver (snd (calculateNumberToEmit s dt)) =
     (if isComplete s then carryOver s
      else let c = carryOver s + frac (CesiumMath_mod dt (lifetime s) * emissionRate s)
           in if c > 1 then c - 1 else c)"
  by (simp add: calculateNumberToEmit_def Let_def split_def frac_def split: option.split)

lemma beforeFree_carryOver:
  "carryOver (fst (beforeFree f s)) = carryOver (snd (calculateNumberToEmit s (frameTime f s)))"
  by (simp add: beforeFree_def Let_def calculateNumberToEmit_carryOver)

lemma update_carryOver:
  assumes "s_show s" "update f s = Inr s'"
  shows "carryOver s' = carryOver (snd (calculateNumberToEmit s (frameTime f s)))"
proof -
  from update_result [OF assms] obtain pool c where
    "s' = (fst (beforeFree f s))\<lparr>particlePool := pool, billboardCollection := Some c\<rparr>"
    by blast
  then show ?thesis by (simp add: beforeFree_carryOver)
qed

lemma calculateNumberToEmit_carryOver_bounds:
  assumes "0 \<le> carryOver s" "carryOver s \<le> 1"
  shows "0 \<le> carryOver (snd (calculateNumberToEmit s dt)) \<and>
         carryOver (snd (calculateNumberToEmit s dt)) \<le> 1"
proof -
  have "0 \<le> frac (CesiumMath_mod dt (lifetime s) * emissionRate s)"
    "frac (CesiumMath_mod dt (lifetime s) * emissionRate s) < 1"
    by (simp_all add: frac_lt_1)
  with assms show ?thesis
    by (simp add: calculateNumberToEmit_carryOver Let_def)
qed

lemma update_carryOver_bounds:
  assumes "0 \<le> carryOver s" "carryOver s \<le> 1" "update f s = Inr s'"
  shows "0 \<le> carryOver s' \<and> carryOver s' \<le> 1"
proof (cases "s_show s")
  case True
  from update_carryOver [OF True assms(3)] calculateNumberToEmit_carryOver_bounds [OF assms(1,2)]
  show ?thesis by simp
next
  case False
  with assms(3) have "s' = s" by (simp add: update_def)
  with assms show ?thesis by simp
qed

text \<open>
  C2, as the code has it: for every sequence of update calls (the frame time is never
  negative, line 724) on a system with a positive lifetime whose carry-over starts in
  \<open>[0, 1]\<close>, as the constructor's 0 does, the carry-over satisfies
  \<open>0 \<le> carryOver \<le> 1\<close> after every update. The upper bound is not strict: the
  scheduler takes one off only when the carry-over is greater than 1 (line 678), so the
  value 1 itself stays.
\<close>

theorem carryOver_between_0_and_1:
  assumes "0 \<le> carryOver s" "carryOver s \<le> 1" "0 < lifetime s" "updates fs s = Inr s'"
  shows "0 \<le> carryOver s' \<and> carryOver s' \<le> 1"
  using assms
proof (induction fs arbitrary: s)
  case Nil
  then show ?case by simp
next
  case (Cons f fs)
  from Cons.prems(4) obtain s1 where u: "update f s = Inr s1" and us: "updates fs s1 = Inr s'"
    by (auto split: sum.splits)
  from update_carryOver_bounds [OF Cons.prems(1,2) u] have b: "0 \<le> carryOver s1" "carryOver s1 \<le> 1"
    by simp_all
  from update_keeps(3) [OF u] Cons.prems(3) have "0 < lifetime s1" by simp
  from Cons.IH [OF b this us] show ?case .
qed

theorem carryOver_between_0_and_1_witness:
  "0 \<le> carryOver sysRate1 \<and> carryOver sysRate1 \<le> 1 \<and> 0 < lifetime sysRate1 \<and>
   updates [frame 0 1, frame (1/2) 2, frame 1 3] sysRate1 =
     Inr (projr (updates [frame 0 1, frame (1/2) 2, frame 1 3] sysRate1)) \<and>
   0 \<le> carryOver (projr (updates [frame 0 1, frame (1/2) 2, frame 1 3] sysRate1)) \<and>
   carryOver (projr (updates [frame 0 1, frame (1/2) 2, frame 1 3] sysRate1)) \<le> 1"
proof -
  have h: "0 \<le> carryOver sysRate1" "carryOver sysRate1 \<le> 1" "0 < lifetime sysRate1"
    by (simp_all add: sysRate1_def new_ParticleSystem_def EMPTY_OBJECT_def nullish_def)
  have r: "updates [frame 0 1, frame (1/2) 2, frame 1 3] sysRate1 =
      Inr (projr (updates [frame 0 1, frame (1/2) 2, frame 1 3] sysRate1))"
    by (rule updates_returns) (simp add: frame_def)
  from h r carryOver_between_0_and_1 [OF h r] show ?thesis by simp
qed

text \<open>
  The carry-over reaches 1: at one particle per second, two frames of half a second
  each leave \<open>carryOver = 1\<close>, which is not below 1.
\<close>

theorem carryOver_reaches_1:
  "map_sum id carryOver (updates [frame 0 1, frame (1/2) 2, frame 1 3] sysRate1) = Inr 1"
  by (simp add: sysRate1_def update_eval)

section \<open>Completion\<close>

text \<open>
  What an update does to the completion flag and to the completion event: a system that
  does not loop, with a finite lifetime, is complete once the elapsed time is beyond the
  lifetime, and the event is raised by every update that ends so, whether the system was
  complete before or not; a looping system is never completed and never raises the event.
\<close>

lemma update_completion:
  assumes "s_show s" "update f s = Inr s'"
  shows "isComplete s' =
      (isComplete s \<or>
       (\<not> loop s \<and> lifetime s \<noteq> MAX_VALUE \<and> lifetime s < currentTime s + frameTime f s))"
    and "completeRaised s' =
      (if \<not> loop s \<and> lifetime s \<noteq> MAX_VALUE \<and> lifetime s < currentTime s + frameTime f s
       then Suc (completeRaised s) else completeRaised s)"
proof -
  from update_result [OF assms] obtain pool c where
    s': "s' = (fst (beforeFree f s))\<lparr>particlePool := pool, billboardCollection := Some c\<rparr>"
    by blast
  show "isComplete s' =
      (isComplete s \<or>
       (\<not> loop s \<and> lifetime s \<noteq> MAX_VALUE \<and> lifetime s < currentTime s + frameTime f s))"
    by (simp add: s' beforeFree_def Let_def advanceTime_def)
  show "completeRaised s' =
      (if \<not> loop s \<and> lifetime s \<noteq> MAX_VALUE \<and> lifetime s < currentTime s + frameTime f s
       then Suc (completeRaised s) else completeRaised s)"
    by (simp add: s' beforeFree_def Let_def advanceTime_def)
qed

lemma looping_never_completes:
  assumes "loop s" "update f s = Inr s'"
  shows "isComplete s' = isComplete s \<and> completeRaised s' = completeRaised s"
proof (cases "s_show s")
  case True
  from update_completion [OF True assms(2)] assms(1) show ?thesis by simp
next
  case False
  with assms(2) have "s' = s" by (simp add: update_def)
  then show ?thesis by simp
qed

text \<open>
  C1: the completion notification is raised again by every update after the one that
  completed the system. A system with \<open>loop = false\<close> and \<open>lifetime = 5\<close> is updated at
  the times 0, 6, 7 and 7: it is complete after the second update, with the event raised
  once, and the third and the fourth update raise the event a second and a third time.
\<close>

theorem complete_raised_on_every_later_update:
  "map_sum id (\<lambda>s. (isComplete s, completeRaised s))
     (updates [frame 0 1, frame 6 2] sysComplete) = Inr (True, 1) \<and>
   map_sum id (\<lambda>s. (isComplete s, completeRaised s))
     (updates [frame 0 1, frame 6 2, frame 7 3] sysComplete) = Inr (True, 2) \<and>
   map_sum id (\<lambda>s. (isComplete s, completeRaised s))
     (updates [frame 0 1, frame 6 2, frame 7 3, frame 7 4] sysComplete) = Inr (True, 3)"
  by (simp add: sysComplete_def update_eval MAX_VALUE_def)

section \<open>The periodic release of the pool\<close>

text \<open>
  Whenever the live particles and the pool together reach the estimate, and so whenever
  the pool holds a surplus, \<open>freeParticlePool\<close> changes nothing.
\<close>

lemma freeParticlePool_keeps_surplus:
  assumes "particleEstimate s \<le> int (length (particles s)) + int (length (particlePool s))"
  shows "freeParticlePool s bc = Inr (s, bc)"
  using assms by (simp add: freeParticlePool_def Let_def)

text \<open>
  C3: on a 120th frame the release frees nothing of a pool that exceeds the estimate. A
  system with \<open>emissionRate = 1\<close> and a particle life of 5 seconds fills its pool with 5
  particles on its first update; the emission rate is then set to 0.4, so that the next
  update, on frame 120, lowers the estimate to 2. With no live particle the pool exceeds
  the estimate by 3, and after that update the pool still has its 5 particles and the
  collection its 5 billboards.
\<close>

theorem shrink_releases_nothing:
  "map_sum id (\<lambda>s. (particleEstimate s, length (particles s), length (particlePool s),
                    map_option (\<lambda>c. length (billboards c)) (billboardCollection s)))
     (andThen (andThen (update (frame 0 1) sysPool) (set_emissionRate (2/5))) (update (frame 0 120)))
   = Inr (2, 0, 5, Some 5)"
  by (simp add: sysPool_def update_eval set_emissionRate_def)

section \<open>The loop over the live particles\<close>

lemma updateLoop_dead:
  assumes "i < len" "\<not> survives s dt (ps ! i)"
  shows "updateLoop s dt i len (ps, pool, bc) =
    updateLoop s dt i (len - 1)
      (ps[i := ps ! (len - 1)], pool @ [advanced s dt (ps ! i)],
       removeBillboard bc (advanced s dt (ps ! i)))"
  using assms by (subst updateLoop.simps) (simp add: survives_def advanced_def)

lemma updateLoop_alive:
  assumes "i < len" "survives s dt (ps ! i)"
  shows "updateLoop s dt i len (ps, pool, bc) =
    updateLoop s dt (i + 1) len
      (ps[i := snd (updateBillboard s bc (advanced s dt (ps ! i)))], pool,
       fst (updateBillboard s bc (advanced s dt (ps ! i))))"
  using assms by (subst updateLoop.simps) (simp add: survives_def advanced_def)

lemma updateBillboard_particle:
  "withoutBillboard (snd (updateBillboard s bc p)) = withoutBillboard p"
  "billboard (snd (updateBillboard s bc p)) \<noteq> None"
  by (simp_all add: updateBillboard_def withoutBillboard_def Let_def split_def)

lemma updateInOrder_live:
  "map withoutBillboard (fst (updateInOrder s dt xs bc)) =
     map (withoutBillboard \<circ> advanced s dt) (filter (survives s dt) xs)"
  by (induction xs arbitrary: bc) (simp_all add: split_def Let_def updateBillboard_particle)

lemma updateInOrder_dead:
  "fst (snd (updateInOrder s dt xs bc)) = map (advanced s dt) (filter (\<lambda>p. \<not> survives s dt p) xs)"
  by (induction xs arbitrary: bc) (simp_all add: split_def Let_def)

lemma updateInOrder_billboards:
  "p \<in> set (fst (updateInOrder s dt xs bc)) \<Longrightarrow> billboard p \<noteq> None"
proof (induction xs arbitrary: bc)
  case Nil
  then show ?case by simp
next
  case (Cons x xs)
  show ?case
  proof (cases "survives s dt x")
    case True
    with Cons.prems have "p = snd (updateBillboard s bc (advanced s dt x)) \<or>
        p \<in> set (fst (updateInOrder s dt xs (fst (updateBillboard s bc (advanced s dt x)))))"
      by (simp add: split_def Let_def)
    then show ?thesis
      using Cons.IH updateBillboard_particle(2) [of s bc "advanced s dt x"] by blast
  next
    case False
    with Cons.prems have
      "p \<in> set (fst (updateInOrder s dt xs (removeBillboard bc (advanced s dt x))))"
      by (simp add: split_def Let_def)
    then show ?thesis by (rule Cons.IH)
  qed
qed

lemma updateLoop_in_order:
  "length todo = n \<Longrightarrow>
   \<exists>xs. mset xs = mset todo \<and>
     updateLoop s dt (length dn) (length dn + length todo) (dn @ todo @ junk, pool, bc) =
       (dn @ fst (updateInOrder s dt xs bc),
        pool @ fst (snd (updateInOrder s dt xs bc)),
        snd (snd (updateInOrder s dt xs bc)))"
proof (induction n arbitrary: todo dn junk pool bc)
  case 0
  then have "todo = []" by simp
  then have "mset [] = mset todo \<and>
     updateLoop s dt (length dn) (length dn + length todo) (dn @ todo @ junk, pool, bc) =
       (dn @ fst (updateInOrder s dt [] bc),
        pool @ fst (snd (updateInOrder s dt [] bc)),
        snd (snd (updateInOrder s dt [] bc)))"
    by simp
  then show ?case by blast
next
  case (Suc k)
  then obtain x rest where todo: "todo = x # rest" and k: "length rest = k"
    by (cases todo) auto
  let ?ps = "dn @ todo @ junk"
  let ?i = "length dn"
  let ?len = "length dn + length todo"
  have i: "?i < ?len" and x: "?ps ! ?i = x"
    by (simp_all add: todo)
  show ?case
  proof (cases "survives s dt x")
    case False
    obtain todo' junk' where
      ps': "?ps[?i := ?ps ! (?len - 1)] = dn @ todo' @ junk'"
      and len': "length todo' = k" and ms: "mset todo' = mset rest"
    proof (cases rest rule: rev_cases)
      case Nil
      have "?ps[?i := ?ps ! (?len - 1)] = dn @ [] @ (x # junk)"
        by (simp add: todo Nil)
      moreover have "length ([]::Particle list) = k" "mset ([]::Particle list) = mset rest"
        using k Nil by simp_all
      ultimately show ?thesis by (rule that)
    next
      case (snoc rest' l)
      have "?ps ! (?len - 1) = l"
        by (simp add: todo snoc nth_append)
      then have "?ps[?i := ?ps ! (?len - 1)] = dn @ (l # rest') @ ([l] @ junk)"
        by (simp add: todo snoc list_update_append)
      moreover have "length (l # rest') = k" "mset (l # rest') = mset rest"
        using k snoc by simp_all
      ultimately show ?thesis by (rule that)
    qed
    let ?bc = "removeBillboard bc (advanced s dt x)"
    have step: "updateLoop s dt ?i ?len (?ps, pool, bc) =
        updateLoop s dt ?i (?i + length todo')
          (dn @ todo' @ junk', pool @ [advanced s dt x], ?bc)"
      using updateLoop_dead [of ?i ?len s dt ?ps pool bc] i x False ps' len' k
      by (simp add: todo)
    from Suc.IH [OF len', of dn junk' "pool @ [advanced s dt x]" ?bc]
    obtain xs where xs: "mset xs = mset todo'"
      and r: "updateLoop s dt ?i (?i + length todo')
            (dn @ todo' @ junk', pool @ [advanced s dt x], ?bc) =
          (dn @ fst (updateInOrder s dt xs ?bc),
           (pool @ [advanced s dt x]) @ fst (snd (updateInOrder s dt xs ?bc)),
           snd (snd (updateInOrder s dt xs ?bc)))"
      by blast
    have "mset (x # xs) = mset todo"
      using xs ms by (simp add: todo)
    moreover have "updateLoop s dt ?i ?len (?ps, pool, bc) =
        (dn @ fst (updateInOrder s dt (x # xs) bc),
         pool @ fst (snd (updateInOrder s dt (x # xs) bc)),
         snd (snd (updateInOrder s dt (x # xs) bc)))"
      using step r False by (simp add: split_def Let_def)
    ultimately show ?thesis by blast
  next
    case True
    let ?q = "snd (updateBillboard s bc (advanced s dt x))"
    let ?bc = "fst (updateBillboard s bc (advanced s dt x))"
    have ps': "?ps[?i := ?q] = (dn @ [?q]) @ rest @ junk"
      by (simp add: todo)
    have step: "updateLoop s dt ?i ?len (?ps, pool, bc) =
        updateLoop s dt (length (dn @ [?q])) (length (dn @ [?q]) + length rest)
          ((dn @ [?q]) @ rest @ junk, pool, ?bc)"
      using updateLoop_alive [of ?i ?len s dt ?ps pool bc] i x True ps'
      by (simp add: todo)
    from Suc.IH [OF k, of "dn @ [?q]" junk pool ?bc]
    obtain xs where xs: "mset xs = mset rest"
      and r: "updateLoop s dt (length (dn @ [?q])) (length (dn @ [?q]) + length rest)
            ((dn @ [?q]) @ rest @ junk, pool, ?bc) =
          ((dn @ [?q]) @ fst (updateInOrder s dt xs ?bc),
           pool @ fst (snd (updateInOrder s dt xs ?bc)),
           snd (snd (updateInOrder s dt xs ?bc)))"
      by blast
    have "mset (x # xs) = mset todo"
      using xs by (simp add: todo)
    moreover have "updateLoop s dt ?i ?len (?ps, pool, bc) =
        (dn @ fst (updateInOrder s dt (x # xs) bc),
         pool @ fst (snd (updateInOrder s dt (x # xs) bc)),
         snd (snd (updateInOrder s dt (x # xs) bc)))"
      using step r True by (simp add: split_def Let_def)
    ultimately show ?thesis by blast
  qed
qed

lemma updateParticles_in_order:
  "\<exists>xs. mset xs = mset (particles s) \<and>
     updateParticles dt (s, bc) =
       (s\<lparr>particles := fst (updateInOrder s dt xs bc),
          particlePool := particlePool s @ fst (snd (updateInOrder s dt xs bc))\<rparr>,
        snd (snd (updateInOrder s dt xs bc)))"
proof -
  from updateLoop_in_order [OF refl, where todo = "particles s" and s = s and dt = dt
      and dn = "[]" and junk = "[]" and pool = "particlePool s" and bc = bc]
  obtain xs where xs: "mset xs = mset (particles s)"
    and r: "updateLoop s dt 0 (length (particles s)) (particles s, particlePool s, bc) =
        (fst (updateInOrder s dt xs bc),
         particlePool s @ fst (snd (updateInOrder s dt xs bc)),
         snd (snd (updateInOrder s dt xs bc)))"
    by auto
  from r have "updateParticles dt (s, bc) =
       (s\<lparr>particles := fst (updateInOrder s dt xs bc),
          particlePool := particlePool s @ fst (snd (updateInOrder s dt xs bc))\<rparr>,
        snd (snd (updateInOrder s dt xs bc)))"
    by (simp add: updateParticles_def)
  with xs show ?thesis by blast
qed

lemma updateParticles_result:
  "\<exists>S D bc'.
     updateParticles dt (s, bc) = (s\<lparr>particles := S, particlePool := particlePool s @ D\<rparr>, bc') \<and>
     mset (map withoutBillboard S) =
       mset (map (withoutBillboard \<circ> advanced s dt) (filter (survives s dt) (particles s))) \<and>
     mset D = mset (map (advanced s dt) (filter (\<lambda>p. \<not> survives s dt p) (particles s))) \<and>
     (\<forall>p \<in> set S. billboard p \<noteq> None)"
proof -
  from updateParticles_in_order [of s dt bc] obtain xs where xs: "mset xs = mset (particles s)"
    and r: "updateParticles dt (s, bc) =
       (s\<lparr>particles := fst (updateInOrder s dt xs bc),
          particlePool := particlePool s @ fst (snd (updateInOrder s dt xs bc))\<rparr>,
        snd (snd (updateInOrder s dt xs bc)))"
    by blast
  have "mset (map withoutBillboard (fst (updateInOrder s dt xs bc))) =
      image_mset (withoutBillboard \<circ> advanced s dt) (filter_mset (survives s dt) (mset xs))"
    by (simp add: updateInOrder_live)
  then have a: "mset (map withoutBillboard (fst (updateInOrder s dt xs bc))) =
      mset (map (withoutBillboard \<circ> advanced s dt) (filter (survives s dt) (particles s)))"
    by (simp add: xs)
  have "mset (fst (snd (updateInOrder s dt xs bc))) =
      image_mset (advanced s dt) (filter_mset (\<lambda>p. \<not> survives s dt p) (mset xs))"
    by (simp add: updateInOrder_dead)
  then have b: "mset (fst (snd (updateInOrder s dt xs bc))) =
      mset (map (advanced s dt) (filter (\<lambda>p. \<not> survives s dt p) (particles s)))"
    by (simp add: xs)
  have c: "\<forall>p \<in> set (fst (updateInOrder s dt xs bc)). billboard p \<noteq> None"
    using updateInOrder_billboards by blast
  from r a b c show ?thesis by blast
qed

subsection \<open>The billboards after the loop\<close>



lemma keys_modify [simp]:
  "fst ` set (billboards (modifyBillboard bc h f)) = fst ` set (billboards bc)"
  by (force simp: modifyBillboard_def split: if_splits)







section \<open>Looping\<close>

lemma CesiumMath_mod_range:
  assumes "0 < n"
  shows "0 \<le> CesiumMath_mod m n \<and> CesiumMath_mod m n < n"
proof -
  from floor_divide_lower [OF assms, of m] floor_divide_upper [OF assms, of m]
  show ?thesis by (simp add: CesiumMath_mod_def algebra_simps)
qed

lemma resetBursts_applyBursts:
  "resetBursts (fst (applyBursts t bs n r)) = resetBursts bs"
  by (induction bs arbitrary: n r) (simp_all add: resetBursts_def split_def Let_def)

lemma calculateNumberToEmit_resetBursts:
  "map_option resetBursts (bursts (snd (calculateNumberToEmit s dt))) =
   map_option resetBursts (bursts s)"
  by (simp add: calculateNumberToEmit_def Let_def split_def resetBursts_applyBursts
      split: option.split)

lemma advanceTime_wrap:
  assumes "loop s" "lifetime s \<noteq> MAX_VALUE" "lifetime s < currentTime s + dt"
  shows "advanceTime f dt s =
    s\<lparr>previousTime := Some (fs_time f),
      currentTime := CesiumMath_mod (currentTime s + dt) (lifetime s),
      bursts := map_option resetBursts (bursts s)\<rparr>"
  using assms by (simp add: advanceTime_def Let_def)

lemma resetBursts_none_complete: "b \<in> set (resetBursts bs) \<Longrightarrow> \<not> burst_complete b"
  by (auto simp: resetBursts_def)

text \<open>
  C6: For every system with a finite lifetime and \<open>loop = true\<close>, an update that takes
  the elapsed time beyond the lifetime wraps it modulo the lifetime (lifetime 10 and
  nominal elapsed time 12 wrap to 2, as the witness shows), resets the fired flag of every
  burst to false, and does not enter the Complete state: \<open>isComplete\<close> stays as it was
  and the completion event is not raised.
\<close>

theorem loop_wraps_elapsed_time:
  assumes "s_show s" "loop s" "lifetime s \<noteq> MAX_VALUE" "0 < lifetime s"
    and "lifetime s < currentTime s + frameTime f s"
    and "update f s = Inr s'"
  shows "currentTime s' = CesiumMath_mod (currentTime s + frameTime f s) (lifetime s) \<and>
         0 \<le> currentTime s' \<and> currentTime s' < lifetime s \<and>
         bursts s' = map_option resetBursts (bursts s) \<and>
         (\<forall>bs. bursts s' = Some bs \<longrightarrow> (\<forall>b \<in> set bs. \<not> burst_complete b)) \<and>
         isComplete s' = isComplete s \<and> completeRaised s' = completeRaised s"
proof -
  define x where "x = fst (emitParticles
      (fst (calculateNumberToEmit (fst (updateParticles (frameTime f s) (preparePool s))) (frameTime f s)))
      (snd (calculateNumberToEmit (fst (updateParticles (frameTime f s) (preparePool s))) (frameTime f s)),
       snd (updateParticles (frameTime f s) (preparePool s))))"
  have bf: "fst (beforeFree f s) = advanceTime f (frameTime f s) x"
    by (simp add: beforeFree_def Let_def x_def)
  have x: "loop x" "lifetime x = lifetime s" "currentTime x = currentTime s"
    "isComplete x = isComplete s" "completeRaised x = completeRaised s"
    using assms(2) by (simp_all add: x_def)
  have xb: "map_option resetBursts (bursts x) = map_option resetBursts (bursts s)"
    by (simp add: x_def calculateNumberToEmit_resetBursts)
  from x assms(3,5) have w: "advanceTime f (frameTime f s) x =
    x\<lparr>previousTime := Some (fs_time f),
      currentTime := CesiumMath_mod (currentTime s + frameTime f s) (lifetime s),
      bursts := map_option resetBursts (bursts s)\<rparr>"
    by (simp add: advanceTime_wrap xb)
  from update_result [OF assms(1,6)] obtain pool c where
    s': "s' = (fst (beforeFree f s))\<lparr>particlePool := pool, billboardCollection := Some c\<rparr>"
    by blast
  have ct: "currentTime s' = CesiumMath_mod (currentTime s + frameTime f s) (lifetime s)"
    and b: "bursts s' = map_option resetBursts (bursts s)"
    and ic: "isComplete s' = isComplete s" "completeRaised s' = completeRaised s"
    by (simp_all add: s' bf w x)
  from b have nc: "\<forall>bs. bursts s' = Some bs \<longrightarrow> (\<forall>b \<in> set bs. \<not> burst_complete b)"
    by (auto dest: resetBursts_none_complete)
  from ct CesiumMath_mod_range [OF assms(4), of "currentTime s + frameTime f s"]
  have "0 \<le> currentTime s'" "currentTime s' < lifetime s" by simp_all
  with ct b nc ic show ?thesis by simp
qed


theorem loop_wraps_elapsed_time_witness:
  "s_show sysLoop \<and> loop sysLoop \<and> lifetime sysLoop \<noteq> MAX_VALUE \<and> 0 < lifetime sysLoop \<and>
   lifetime sysLoop < currentTime sysLoop + frameTime (frame 105 1) sysLoop \<and>
   update (frame 105 1) sysLoop = Inr (projr (update (frame 105 1) sysLoop)) \<and>
   currentTime sysLoop + frameTime (frame 105 1) sysLoop = 12 \<and>
   currentTime (projr (update (frame 105 1) sysLoop)) = 2 \<and>
   bursts (projr (update (frame 105 1) sysLoop)) =
     Some [\<lparr>time = 1, minimum = 0, maximum = 0, burst_complete = False\<rparr>] \<and>
   \<not> isComplete (projr (update (frame 105 1) sysLoop)) \<and>
   completeRaised (projr (update (frame 105 1) sysLoop)) = 0"
proof -
  have h: "s_show sysLoop" "loop sysLoop" "lifetime sysLoop \<noteq> MAX_VALUE" "0 < lifetime sysLoop"
    "lifetime sysLoop < currentTime sysLoop + frameTime (frame 105 1) sysLoop"
    using MAX_VALUE_large by (simp_all add: sysLoop_def sys_eval frameTime_def)
  have r: "update (frame 105 1) sysLoop = Inr (projr (update (frame 105 1) sysLoop))"
    by (rule update_returns) (simp add: frame_def)
  have v: "currentTime sysLoop + frameTime (frame 105 1) sysLoop = 12" "lifetime sysLoop = 10"
    "bursts sysLoop = Some [\<lparr>time = 1, minimum = 0, maximum = 0, burst_complete = True\<rparr>]"
    "\<not> isComplete sysLoop" "completeRaised sysLoop = 0"
    by (simp_all add: sysLoop_def sys_eval frameTime_def)
  from loop_wraps_elapsed_time [OF h r] h r v show ?thesis
    by (simp add: CesiumMath_mod_def resetBursts_def)
qed

section \<open>The complete system\<close>

lemma survives_preparePool [simp]:
  "survives (fst (preparePool s)) = survives s"
  "advanced (fst (preparePool s)) = advanced s"
  by (simp_all add: survives_def advanced_def fun_eq_iff)

lemma calculateNumberToEmit_complete:
  "isComplete s \<Longrightarrow> calculateNumberToEmit s dt = (0, s)"
  by (simp add: calculateNumberToEmit_def)


lemma advanceTime_currentTime:
  "currentTime (advanceTime f dt s) =
     (if loop s \<and> lifetime s \<noteq> MAX_VALUE \<and> lifetime s < currentTime s + dt
      then CesiumMath_mod (currentTime s + dt) (lifetime s) else currentTime s + dt)"
  by (simp add: advanceTime_def Let_def)


lemma preparePool_sizeInMeters [simp]:
  "sizeInMeters (fst (preparePool s)) = sizeInMeters s"
  by (simp add: preparePool_def updateParticlePool_def Let_def split_def)

lemma billboardOf_preparePool [simp]: "billboardOf (fst (preparePool s)) = billboardOf s"
  by (simp add: billboardOf_def fun_eq_iff)






section \<open>Emission counts\<close>

subsection \<open>Emission adds particles\<close>

lemma emitParticle_length:
  "length (particles (fst (emitParticle m em st))) = Suc (length (particles (fst st)))"
  by (simp add: emitParticle_def addParticle_def getOrCreateParticle_def split_def Let_def)

lemma emitLoop_length:
  "length (particles (fst (emitLoop m em n i st))) =
   length (particles (fst st)) + (nat \<lceil>n\<rceil> - i)"
proof (induction m em n i st rule: emitLoop.induct)
  case (1 m em n i st)
  show ?case
  proof (cases "real i < n")
    case True
    then have "i < nat \<lceil>n\<rceil>"
      by (simp add: zless_nat_eq_int_zless less_ceiling_iff)
    with True 1 show ?thesis
      by (subst emitLoop.simps) (simp add: emitParticle_length)
  next
    case False
    then have "nat \<lceil>n\<rceil> \<le> i"
      by (simp add: nat_le_iff ceiling_le_iff)
    with False show ?thesis by simp
  qed
qed

lemma emitParticles_length:
  "emitter (fst st) \<noteq> None \<Longrightarrow>
   length (particles (fst (emitParticles n st))) = length (particles (fst st)) + nat \<lceil>n\<rceil>"
  by (cases "0 < n")
     (auto simp: emitParticles_def split_def Let_def emitLoop_length ceiling_le_iff not_less)

lemma emitParticles_length_ge:
  "length (particles (fst st)) \<le> length (particles (fst (emitParticles n st)))"
  by (cases "emitter (fst st)")
     (simp_all add: emitParticles_length, simp add: emitParticles_def split_def)

subsection \<open>Bursts with a fixed count\<close>

lemma applyBursts_fixed:
  assumes "\<forall>b \<in> set bs. minimum b = maximum b"
  shows "applyBursts t bs n r =
    (map (\<lambda>b. if due t b then b\<lparr>burst_complete := True\<rparr> else b) bs,
     n + sum_list (map minimum (filter (due t) bs)),
     \<lambda>k. r (k + length (filter (due t) bs)))"
  using assms
  by (induction bs arbitrary: n r) (simp_all add: due_def randomBetween_def)

lemma calculateNumberToEmit_bursts:
  assumes "\<not> isComplete s" "bursts s = Some bs" "\<forall>b \<in> set bs. minimum b = maximum b"
  shows "fst (calculateNumberToEmit s dt) =
      fst (calculateNumberToEmit (s\<lparr>bursts := None\<rparr>) dt) +
      sum_list (map minimum (filter (due (currentTime s)) bs))"
    and "bursts (snd (calculateNumberToEmit s dt)) =
      Some (map (\<lambda>b. if due (currentTime s) b then b\<lparr>burst_complete := True\<rparr> else b) bs)"
  using assms
  by (simp_all add: calculateNumberToEmit_def Let_def split_def applyBursts_fixed)

lemma calculateNumberToEmit_no_rate:
  assumes "\<not> isComplete s" "emissionRate s = 0" "carryOver s \<le> 1"
  shows "fst (calculateNumberToEmit (s\<lparr>bursts := None\<rparr>) dt) = 0"
  using assms by (simp add: calculateNumberToEmit_def Let_def)

lemma calculateNumberToEmit_count_cong:
  assumes "isComplete t = isComplete s" "lifetime t = lifetime s"
    "emissionRate t = emissionRate s" "carryOver t = carryOver s" "bursts t = bursts s"
    "currentTime t = currentTime s" "randoms t = randoms s"
  shows "fst (calculateNumberToEmit t dt) = fst (calculateNumberToEmit s dt)"
  using assms by (simp add: calculateNumberToEmit_def Let_def split_def split: option.split)

lemma scheduled_count:
  "fst (calculateNumberToEmit (fst (updateParticles dt (preparePool s))) dt) =
   fst (calculateNumberToEmit s dt)"
  by (rule calculateNumberToEmit_count_cong) simp_all

lemma beforeFree_currentTime:
  "currentTime (fst (beforeFree f s)) =
     (if loop s \<and> lifetime s \<noteq> MAX_VALUE \<and> lifetime s < currentTime s + frameTime f s
      then CesiumMath_mod (currentTime s + frameTime f s) (lifetime s)
      else currentTime s + frameTime f s)"
  by (simp add: beforeFree_def Let_def advanceTime_currentTime)

lemma updateParticles_length:
  "length (particles (fst (updateParticles dt (preparePool s)))) =
   length (filter (survives s dt) (particles s))"
proof -
  obtain s1 bc1 where pp: "preparePool s = (s1, bc1)" by (cases "preparePool s")
  then have s1: "s1 = fst (preparePool s)" by simp
  from updateParticles_result [of dt s1 bc1] obtain S D bc' where
    up: "updateParticles dt (s1, bc1) = (s1\<lparr>particles := S, particlePool := particlePool s1 @ D\<rparr>, bc')"
    and S: "mset (map withoutBillboard S) =
       mset (map (withoutBillboard \<circ> advanced s1 dt) (filter (survives s1 dt) (particles s1)))"
    by blast
  from S have "length (map withoutBillboard S) =
      length (map (withoutBillboard \<circ> advanced s1 dt) (filter (survives s1 dt) (particles s1)))"
    by (rule mset_eq_length)
  then have "length S = length (filter (survives s1 dt) (particles s1))"
    by simp
  moreover have "survives s1 = survives s" "particles s1 = particles s"
    by (simp_all add: s1)
  ultimately show ?thesis using up pp by simp
qed

lemma beforeFree_particles_length:
  assumes "emitter s \<noteq> None"
  shows "length (particles (fst (beforeFree f s))) =
    length (filter (survives s (frameTime f s)) (particles s)) +
    nat \<lceil>fst (calculateNumberToEmit s (frameTime f s))\<rceil>"
  using assms
  by (simp add: beforeFree_def Let_def emitParticles_length scheduled_count updateParticles_length)

lemma beforeFree_particles_length_ge:
  "length (filter (survives s (frameTime f s)) (particles s)) \<le>
   length (particles (fst (beforeFree f s)))"
proof -
  have "length (particles (fst (updateParticles (frameTime f s) (preparePool s)))) \<le>
    length (particles (fst (beforeFree f s)))"
    using emitParticles_length_ge
      [of "(snd (calculateNumberToEmit (fst (updateParticles (frameTime f s) (preparePool s)))
                   (frameTime f s)),
            snd (updateParticles (frameTime f s) (preparePool s)))"]
    by (simp add: beforeFree_def Let_def)
  then show ?thesis by (simp add: updateParticles_length)
qed

lemma update_particles:
  assumes "s_show s" "update f s = Inr s'"
  shows "particles s' = particles (fst (beforeFree f s))"
    and "currentTime s' = currentTime (fst (beforeFree f s))"
proof -
  from update_result [OF assms] obtain pool c where
    "s' = (fst (beforeFree f s))\<lparr>particlePool := pool, billboardCollection := Some c\<rparr>"
    by blast
  then show "particles s' = particles (fst (beforeFree f s))"
    and "currentTime s' = currentTime (fst (beforeFree f s))"
    by simp_all
qed

lemma beforeFree_particles_no_emission:
  assumes "fst (calculateNumberToEmit s (frameTime f s)) \<le> 0"
  shows "particles (fst (beforeFree f s)) =
    particles (fst (updateParticles (frameTime f s) (preparePool s)))"
  using assms by (simp add: beforeFree_def Let_def scheduled_count)

lemma applyBursts_marks:
  "fst (applyBursts t bs n r) = map (\<lambda>b. if due t b then b\<lparr>burst_complete := True\<rparr> else b) bs"
  by (induction bs arbitrary: n r) (simp_all add: due_def split_def Let_def)

lemma calculateNumberToEmit_marks:
  "bursts (snd (calculateNumberToEmit s dt)) =
     (if isComplete s then bursts s
      else map_option (map (\<lambda>b. if due (currentTime s) b then b\<lparr>burst_complete := True\<rparr> else b))
             (bursts s))"
  by (simp add: calculateNumberToEmit_def Let_def split_def applyBursts_marks split: option.split)

lemma calculateNumberToEmit_bursts_cong:
  assumes "isComplete t = isComplete s" "bursts t = bursts s" "currentTime t = currentTime s"
  shows "bursts (snd (calculateNumberToEmit t dt)) = bursts (snd (calculateNumberToEmit s dt))"
  using assms by (simp add: calculateNumberToEmit_marks)

lemma beforeFree_bursts:
  "bursts (fst (beforeFree f s)) =
     (if loop s \<and> lifetime s \<noteq> MAX_VALUE \<and> lifetime s < currentTime s + frameTime f s
      then map_option resetBursts (bursts s)
      else bursts (snd (calculateNumberToEmit s (frameTime f s))))"
proof -
  have c: "bursts (snd (calculateNumberToEmit (fst (updateParticles (frameTime f s) (preparePool s)))
              (frameTime f s))) = bursts (snd (calculateNumberToEmit s (frameTime f s)))"
    by (rule calculateNumberToEmit_bursts_cong) simp_all
  show ?thesis
    by (simp add: beforeFree_def Let_def advanceTime_def c calculateNumberToEmit_resetBursts)
qed

lemma update_bursts:
  assumes "s_show s" "update f s = Inr s'"
  shows "bursts s' =
     (if loop s \<and> lifetime s \<noteq> MAX_VALUE \<and> lifetime s < currentTime s + frameTime f s
      then map_option resetBursts (bursts s)
      else bursts (snd (calculateNumberToEmit s (frameTime f s))))"
proof -
  from update_result [OF assms] obtain pool c where
    "s' = (fst (beforeFree f s))\<lparr>particlePool := pool, billboardCollection := Some c\<rparr>"
    by blast
  then have "bursts s' = bursts (fst (beforeFree f s))" by simp
  then show ?thesis by (simp only: beforeFree_bursts)
qed

lemma fired_add_nothing:
  "sum_list (map minimum (filter (due t')
      (map (\<lambda>b. if due t b then b\<lparr>burst_complete := True\<rparr> else b) bs))) =
   sum_list (map minimum (filter (\<lambda>b. \<not> burst_complete b \<and> \<not> time b < t \<and> time b < t') bs))"
  by (induction bs) (auto simp: due_def)

lemma calculateNumberToEmit_all_fired:
  assumes "emissionRate s = 0" "carryOver s \<le> 1" "bursts s = Some bs"
    and "\<forall>b \<in> set bs. burst_complete b"
  shows "fst (calculateNumberToEmit s dt) = 0"
proof (cases "isComplete s")
  case True
  then show ?thesis by (simp add: calculateNumberToEmit_complete)
next
  case False
  from assms(4) have fx: "filter (due (currentTime s)) bs = []"
    by (simp add: filter_empty_conv due_def)
  have "fst (snd (applyBursts (currentTime s) bs n r)) = n" for n r
    using assms(4) by (induction bs arbitrary: n r) (simp_all add: split_def Let_def)
  with False assms(1-3) show ?thesis
    by (simp add: calculateNumberToEmit_def Let_def split_def)
qed

lemma update_all_fired:
  assumes "emissionRate s = 0" "carryOver s \<le> 1" "bursts s = Some bs"
    and "\<forall>b \<in> set bs. burst_complete b" "\<not> loop s \<or> lifetime s = MAX_VALUE"
    and "update f s = Inr s'"
  shows "length (particles s') \<le> length (particles s) \<and> bursts s' = Some bs \<and>
    carryOver s' \<le> 1"
proof (cases "s_show s")
  case False
  with assms(6) have "s' = s" by (simp add: update_def)
  with assms show ?thesis by simp
next
  case True
  have z: "fst (calculateNumberToEmit s (frameTime f s)) = 0"
    by (rule calculateNumberToEmit_all_fired [OF assms(1-4)])
  have "particles s' = particles (fst (updateParticles (frameTime f s) (preparePool s)))"
    using update_particles(1) [OF True assms(6)] beforeFree_particles_no_emission [of s f] z
    by simp
  then have len: "length (particles s') \<le> length (particles s)"
    by (simp add: updateParticles_length)
  have m: "map (\<lambda>b. if due (currentTime s) b then b\<lparr>burst_complete := True\<rparr> else b) bs = bs"
    using assms(4) by (simp add: map_idI due_def)
  have b: "bursts s' = Some bs"
    using update_bursts [OF True assms(6)] assms(3,5)
    by (auto simp: calculateNumberToEmit_marks m)
  have co: "carryOver s' \<le> 1"
    using update_carryOver [OF True assms(6)] assms(1,2)
    by (simp add: calculateNumberToEmit_carryOver Let_def)
  from len b co show ?thesis by simp
qed

lemma updates_all_fired:
  assumes "emissionRate s = 0" "carryOver s \<le> 1" "bursts s = Some bs"
    and "\<forall>b \<in> set bs. burst_complete b" "\<not> loop s \<or> lifetime s = MAX_VALUE"
    and "updates fs s = Inr s'"
  shows "length (particles s') \<le> length (particles s) \<and> bursts s' = Some bs \<and>
    emissionRate s' = 0 \<and> carryOver s' \<le> 1"
  using assms
proof (induction fs arbitrary: s)
  case Nil
  then show ?case by simp
next
  case (Cons f fs)
  from Cons.prems(6) obtain s1 where u: "update f s = Inr s1" and us: "updates fs s1 = Inr s'"
    by (auto split: sum.splits)
  from update_all_fired [OF Cons.prems(1-5) u]
  have s1: "length (particles s1) \<le> length (particles s)" "bursts s1 = Some bs" "carryOver s1 \<le> 1"
    by simp_all
  from update_keeps [OF u] Cons.prems(1,5)
  have k: "emissionRate s1 = 0" "\<not> loop s1 \<or> lifetime s1 = MAX_VALUE"
    by simp_all
  from Cons.IH [OF k(1) s1(3) s1(2) Cons.prems(4) k(2) us] s1(1) show ?case by simp
qed

text \<open>
  C4, as the code has it: the scheduler compares the trigger time of a burst with the
  elapsed time accumulated by the earlier updates (line 689 runs before line 809). A
  burst with \<open>minimum = maximum = n\<close> adds exactly \<open>n\<close> to the emission count at the
  first scheduler call, on a system that is not complete, that finds the burst not fired
  and that elapsed time strictly greater than its trigger time. The update marks it
  fired: the bursts of the system after the update are the bursts before it with every
  due burst marked, unless the update wraps the elapsed time of a looping system, which
  resets every burst. A burst marked so adds nothing to the emission count of the next
  update; and once every burst has fired, on a system whose elapsed time never wraps, no
  run of later updates adds a live particle or changes a burst, and the scheduler returns
  0 in the state that the run reaches. With \<open>emissionRate = 0\<close> an
  update emits exactly the particles of the bursts that fire in it: for a single burst at
  \<open>time = 0\<close> with \<open>min = max = 3\<close> none at the first tick, where the elapsed time is
  still 0, and 3 at the first update that starts with a positive elapsed time.
\<close>

theorem burst_fires_once_elapsed_exceeds_time:
  assumes "\<not> isComplete s" "bursts s = Some bs" "\<forall>b \<in> set bs. minimum b = maximum b"
    and "s_show s" "emitter s \<noteq> None" "emissionRate s = 0" "carryOver s \<le> 1"
    and "0 < lifetime s" "update f s = Inr s'"
  shows "fst (calculateNumberToEmit s dt) =
      fst (calculateNumberToEmit (s\<lparr>bursts := None\<rparr>) dt) +
      sum_list (map minimum (filter (\<lambda>b. \<not> burst_complete b \<and> time b < currentTime s) bs)) \<and>
    bursts (snd (calculateNumberToEmit s dt)) =
      Some (map (\<lambda>b. if \<not> burst_complete b \<and> time b < currentTime s
                      then b\<lparr>burst_complete := True\<rparr> else b) bs) \<and>
    length (particles s') =
      length (filter (survives s (frameTime f s)) (particles s)) +
      nat \<lceil>sum_list (map minimum
               (filter (\<lambda>b. \<not> burst_complete b \<and> time b < currentTime s) bs))\<rceil> \<and>
    bursts s' =
      Some (if loop s \<and> lifetime s \<noteq> MAX_VALUE \<and> lifetime s < currentTime s + frameTime f s
            then resetBursts bs
            else map (\<lambda>b. if \<not> burst_complete b \<and> time b < currentTime s
                           then b\<lparr>burst_complete := True\<rparr> else b) bs) \<and>
    (\<not> (loop s \<and> lifetime s \<noteq> MAX_VALUE \<and> lifetime s < currentTime s + frameTime f s) \<longrightarrow>
       currentTime s' = currentTime s + frameTime f s \<and>
       fst (calculateNumberToEmit s' dt') =
         (if isComplete s' then 0
          else sum_list (map minimum
                 (filter (\<lambda>b. \<not> burst_complete b \<and> \<not> time b < currentTime s \<and>
                               time b < currentTime s') bs)))) \<and>
    ((\<not> loop s \<or> lifetime s = MAX_VALUE) \<and>
     (\<forall>b \<in> set bs. burst_complete b \<or> time b < currentTime s) \<and>
     updates fs s' = Inr s'' \<longrightarrow>
       length (particles s'') \<le> length (particles s') \<and> bursts s'' = bursts s' \<and>
       fst (calculateNumberToEmit s'' dt') = 0)"
proof -
  let ?wrap = "loop s \<and> lifetime s \<noteq> MAX_VALUE \<and> lifetime s < currentTime s + frameTime f s"
  let ?mark = "\<lambda>b. if \<not> burst_complete b \<and> time b < currentTime s
                      then b\<lparr>burst_complete := True\<rparr> else b"
  have d: "due (currentTime s) = (\<lambda>b. \<not> burst_complete b \<and> time b < currentTime s)"
    by (simp add: due_def fun_eq_iff)
  note cb = calculateNumberToEmit_bursts [OF assms(1-3), unfolded d]
  have "fst (calculateNumberToEmit s (frameTime f s)) =
      sum_list (map minimum (filter (\<lambda>b. \<not> burst_complete b \<and> time b < currentTime s) bs))"
    by (simp add: cb(1) calculateNumberToEmit_no_rate [OF assms(1,6,7)])
  with beforeFree_particles_length [OF assms(5), of f] update_particles(1) [OF assms(4,9)]
  have len: "length (particles s') =
      length (filter (survives s (frameTime f s)) (particles s)) +
      nat \<lceil>sum_list (map minimum
               (filter (\<lambda>b. \<not> burst_complete b \<and> time b < currentTime s) bs))\<rceil>"
    by simp
  have b': "bursts s' = Some (if ?wrap then resetBursts bs else map ?mark bs)"
    using update_bursts [OF assms(4,9)] by (simp add: cb(2) assms(2))
  have nxt: "currentTime s' = currentTime s + frameTime f s \<and>
       fst (calculateNumberToEmit s' dt') =
         (if isComplete s' then 0
          else sum_list (map minimum
                 (filter (\<lambda>b. \<not> burst_complete b \<and> \<not> time b < currentTime s \<and>
                               time b < currentTime s') bs)))" if nw: "\<not> ?wrap"
  proof -
    have ct: "currentTime s' = currentTime s + frameTime f s"
      using update_particles(2) [OF assms(4,9)] nw by (simp add: beforeFree_currentTime)
    have bs': "bursts s' = Some (map ?mark bs)"
      using b' nw by simp
    have fx: "\<forall>b \<in> set (map ?mark bs). minimum b = maximum b"
      using assms(3) by auto
    have er: "emissionRate s' = 0"
      using update_keeps(5) [OF assms(9)] assms(6) by simp
    have co: "carryOver s' \<le> 1"
      using update_carryOver [OF assms(4,9)] assms(1,6,7)
      by (simp add: calculateNumberToEmit_carryOver Let_def)
    show ?thesis
    proof (cases "isComplete s'")
      case True
      then show ?thesis by (simp add: ct calculateNumberToEmit_complete)
    next
      case False
      have "fst (calculateNumberToEmit s' dt') =
          sum_list (map minimum (filter (due (currentTime s')) (map ?mark bs)))"
        by (simp add: calculateNumberToEmit_bursts(1) [OF False bs' fx]
            calculateNumberToEmit_no_rate [OF False er co])
      also have "\<dots> = sum_list (map minimum
                 (filter (\<lambda>b. \<not> burst_complete b \<and> \<not> time b < currentTime s \<and>
                               time b < currentTime s') bs))"
        using fired_add_nothing [of "currentTime s'" "currentTime s" bs] by (simp add: d)
      finally show ?thesis using False ct by simp
    qed
  qed
  have ever: "length (particles s'') \<le> length (particles s') \<and> bursts s'' = bursts s' \<and>
      fst (calculateNumberToEmit s'' dt') = 0"
    if nl: "\<not> loop s \<or> lifetime s = MAX_VALUE"
      and af: "\<forall>b \<in> set bs. burst_complete b \<or> time b < currentTime s"
      and us: "updates fs s' = Inr s''"
  proof -
    have bs': "bursts s' = Some (map ?mark bs)"
      using b' nl by auto
    have fired: "\<forall>b \<in> set (map ?mark bs). burst_complete b"
      using af by auto
    have er: "emissionRate s' = 0" and nl': "\<not> loop s' \<or> lifetime s' = MAX_VALUE"
      using update_keeps [OF assms(9)] assms(6) nl by simp_all
    have co: "carryOver s' \<le> 1"
      using update_carryOver [OF assms(4,9)] assms(1,6,7)
      by (simp add: calculateNumberToEmit_carryOver Let_def)
    from updates_all_fired [OF er co bs' fired nl' us]
    have r: "length (particles s'') \<le> length (particles s')" "bursts s'' = Some (map ?mark bs)"
      "emissionRate s'' = 0" "carryOver s'' \<le> 1"
      by simp_all
    from calculateNumberToEmit_all_fired [OF r(3,4,2) fired] r(1,2) bs' show ?thesis by simp
  qed
  from cb len b' nxt ever show ?thesis by blast
qed

subsection \<open>Updates with the frame time zero\<close>

lemma survives_at_0: "age p \<le> life p \<Longrightarrow> survives s 0 p"
  by (simp add: survives_def Particle_update_def Let_def)

lemma calculateNumberToEmit_at_0:
  assumes "carryOver s \<le> 1"
  shows "fst (calculateNumberToEmit s 0) =
     (if isComplete s then 0
      else case bursts s of
             None \<Rightarrow> 0
           | Some bs \<Rightarrow> fst (snd (applyBursts (currentTime s) bs 0 (randoms s))))"
    and "carryOver (snd (calculateNumberToEmit s 0)) = carryOver s"
  using assms
  by (simp_all add: calculateNumberToEmit_def Let_def split_def CesiumMath_mod_def
      split: option.split)

lemma update_previousTime:
  assumes "s_show s" "update f s = Inr s'"
  shows "previousTime s' = Some (fs_time f)"
proof -
  from update_result [OF assms] obtain pool c where
    "s' = (fst (beforeFree f s))\<lparr>particlePool := pool, billboardCollection := Some c\<rparr>"
    by blast
  then show ?thesis by (simp add: beforeFree_def Let_def)
qed

lemma advanced_no_callback:
  "updateCallback s = None \<Longrightarrow> age (advanced s dt p) = age p + dt"
  "updateCallback s = None \<Longrightarrow> life (advanced s dt p) = life p"
  by (simp_all add: advanced_def Particle_update_def Let_def)

lemma withoutBillboard_fields [simp]:
  "age (withoutBillboard p) = age p" "life (withoutBillboard p) = life p"
  by (simp_all add: withoutBillboard_def)

lemma survivors_ages:
  assumes "mset (map withoutBillboard S) = mset (map (withoutBillboard \<circ> advanced s dt) ps)"
    and "updateCallback s = None" "q \<in> set S"
  shows "\<exists>p \<in> set ps. age q = age p + dt \<and> life q = life p"
proof -
  from assms(1) have "set (map withoutBillboard S) = set (map (withoutBillboard \<circ> advanced s dt) ps)"
    by (rule mset_eq_setD)
  with assms(3) have "withoutBillboard q \<in> (withoutBillboard \<circ> advanced s dt) ` set ps"
    by auto
  then obtain p where p: "p \<in> set ps" and e: "withoutBillboard q = withoutBillboard (advanced s dt p)"
    by auto
  from e have "age (withoutBillboard q) = age (withoutBillboard (advanced s dt p))"
    "life (withoutBillboard q) = life (withoutBillboard (advanced s dt p))"
    by simp_all
  then have "age q = age p + dt" "life q = life p"
    by (simp_all add: advanced_no_callback [OF assms(2)])
  with p show ?thesis by blast
qed

lemma updateParticles_survivors:
  "mset (map withoutBillboard (particles (fst (updateParticles dt (preparePool s))))) =
   mset (map (withoutBillboard \<circ> advanced s dt) (filter (survives s dt) (particles s)))"
proof -
  obtain s1 bc1 where pp: "preparePool s = (s1, bc1)" by (cases "preparePool s")
  then have s1: "s1 = fst (preparePool s)" by simp
  from updateParticles_result [of dt s1 bc1] obtain S D bc' where
    up: "updateParticles dt (s1, bc1) = (s1\<lparr>particles := S, particlePool := particlePool s1 @ D\<rparr>, bc')"
    and S: "mset (map withoutBillboard S) =
       mset (map (withoutBillboard \<circ> advanced s1 dt) (filter (survives s1 dt) (particles s1)))"
    by blast
  have "survives s1 = survives s" "advanced s1 = advanced s" "particles s1 = particles s"
    by (simp_all add: s1)
  with S up pp show ?thesis by simp
qed

lemma zero_dt_ages:
  assumes "s_show s" "frameTime f s = 0" "update f s = Inr s'"
    and "\<forall>p \<in> set (particles s). age p \<le> life p"
    and "updateCallback s = None" "fst (calculateNumberToEmit s 0) \<le> 0"
  shows "\<forall>q \<in> set (particles s'). age q \<le> life q"
proof
  fix q assume q: "q \<in> set (particles s')"
  have "particles s' = particles (fst (updateParticles 0 (preparePool s)))"
    using update_particles(1) [OF assms(1,3)] beforeFree_particles_no_emission [of s f] assms(2,6)
    by simp
  with q have "q \<in> set (particles (fst (updateParticles 0 (preparePool s))))" by simp
  from survivors_ages [OF updateParticles_survivors [of 0 s] assms(5) this]
  obtain p where "p \<in> set (particles s)" "age q = age p + 0" "life q = life p"
    by auto
  with assms(4) show "age q \<le> life q" by simp
qed

text \<open>
  C5, as the code has it: an update call whose time difference is \<open>dt \<le> 0\<close> runs with
  the frame time 0 (a negative difference is clamped, line 724). On a state that satisfies
  the invariants of the data model (\<open>carryOver \<le> 1\<close>, a positive lifetime, every live
  particle with \<open>age \<le> life\<close>) it produces no emission from the rate term (the
  emission count is what the due bursts add to 0, the update emits that many particles,
  and the carry-over is unchanged) and no death among the live particles (every one
  survives, the loop retires none into the pool and keeps them all). The elapsed time is
  unchanged unless a wrap is pending, that is, unless the system is looping with a finite
  lifetime below the elapsed time, as after the lifetime has been lowered: then the call
  wraps the elapsed time modulo the lifetime. After the call no wrap is pending, and the
  invariants on the carry-over and the lifetime hold again, and so does the one on the
  ages when there is no update callback and no burst has fired; so repeated calls after
  the first leave the elapsed time as it is.
\<close>

theorem update_with_zero_dt:
  assumes "s_show s"
    and "(case previousTime s of None \<Rightarrow> 0 | Some t \<Rightarrow> fs_time f - t) \<le> 0"
    and "carryOver s \<le> 1" "0 < lifetime s"
    and "\<forall>p \<in> set (particles s). age p \<le> life p"
    and "update f s = Inr s'"
  shows "frameTime f s = 0 \<and>
    fst (calculateNumberToEmit s 0) =
      (if isComplete s then 0
       else case bursts s of
              None \<Rightarrow> 0
            | Some bs \<Rightarrow> fst (snd (applyBursts (currentTime s) bs 0 (randoms s)))) \<and>
    carryOver s' = carryOver s \<and>
    (\<forall>p \<in> set (particles s). survives s 0 p) \<and>
    particlePool (fst (updateParticles 0 (preparePool s))) = particlePool (fst (preparePool s)) \<and>
    length (particles (fst (updateParticles 0 (preparePool s)))) = length (particles s) \<and>
    length (particles s) \<le> length (particles s') \<and>
    (emitter s \<noteq> None \<longrightarrow>
       length (particles s') = length (particles s) + nat \<lceil>fst (calculateNumberToEmit s 0)\<rceil>) \<and>
    currentTime s' =
      (if loop s \<and> lifetime s \<noteq> MAX_VALUE \<and> lifetime s < currentTime s
       then CesiumMath_mod (currentTime s) (lifetime s) else currentTime s) \<and>
    s_show s' \<and> previousTime s' = Some (fs_time f) \<and> carryOver s' \<le> 1 \<and> 0 < lifetime s' \<and>
    \<not> (loop s' \<and> lifetime s' \<noteq> MAX_VALUE \<and> lifetime s' < currentTime s') \<and>
    (updateCallback s = None \<and> fst (calculateNumberToEmit s 0) \<le> 0 \<longrightarrow>
       (\<forall>q \<in> set (particles s'). age q \<le> life q))"
proof -
  have dt: "frameTime f s = 0"
    using assms(2) by (simp add: frameTime_def Let_def split: option.splits)
  have sv: "\<forall>p \<in> set (particles s). survives s 0 p"
    using assms(5) by (simp add: survives_at_0)
  then have all: "filter (survives s 0) (particles s) = particles s"
    and none: "filter (\<lambda>p. \<not> survives s 0 p) (particles s) = []"
    by (simp_all add: filter_empty_conv)
  have co: "carryOver s' = carryOver s"
    using update_carryOver [OF assms(1,6)] calculateNumberToEmit_at_0(2) [OF assms(3)]
    by (simp add: dt)
  obtain s1 bc1 where pp: "preparePool s = (s1, bc1)" by (cases "preparePool s")
  then have s1: "s1 = fst (preparePool s)" by simp
  from updateParticles_result [of 0 s1 bc1] obtain S D bc' where
    up: "updateParticles 0 (s1, bc1) = (s1\<lparr>particles := S, particlePool := particlePool s1 @ D\<rparr>, bc')"
    and D: "mset D = mset (map (advanced s1 0) (filter (\<lambda>p. \<not> survives s1 0 p) (particles s1)))"
    by blast
  have eqs: "survives s1 = survives s" "particles s1 = particles s"
    by (simp_all add: s1)
  from D none have "D = []" by (simp add: eqs)
  with up pp have pool: "particlePool (fst (updateParticles 0 (preparePool s))) =
      particlePool (fst (preparePool s))"
    by simp
  have len: "length (particles (fst (updateParticles 0 (preparePool s)))) = length (particles s)"
    by (simp add: updateParticles_length all)
  have ge: "length (particles s) \<le> length (particles s')"
    using beforeFree_particles_length_ge [of s f] update_particles(1) [OF assms(1,6)]
    by (simp add: dt all)
  have ct: "currentTime s' =
      (if loop s \<and> lifetime s \<noteq> MAX_VALUE \<and> lifetime s < currentTime s
       then CesiumMath_mod (currentTime s) (lifetime s) else currentTime s)"
    using update_particles(2) [OF assms(1,6)]
    by (simp add: beforeFree_currentTime dt)
  have k: "loop s' = loop s" "lifetime s' = lifetime s" "s_show s' = s_show s"
    using update_keeps(1-3) [OF assms(6)] by simp_all
  have nw: "\<not> (loop s' \<and> lifetime s' \<noteq> MAX_VALUE \<and> lifetime s' < currentTime s')"
    using CesiumMath_mod_range [OF assms(4), of "currentTime s"]
    by (simp add: k ct)
  have again: "s_show s'" "previousTime s' = Some (fs_time f)" "carryOver s' \<le> 1"
    "0 < lifetime s'"
    using k update_previousTime [OF assms(1,6)] assms(1,3,4) co
    by simp_all
  have ages: "updateCallback s = None \<and> fst (calculateNumberToEmit s 0) \<le> 0 \<longrightarrow>
       (\<forall>q \<in> set (particles s'). age q \<le> life q)"
    using zero_dt_ages [OF assms(1) dt assms(6,5)] by blast
  have cnt: "emitter s \<noteq> None \<longrightarrow>
       length (particles s') = length (particles s) + nat \<lceil>fst (calculateNumberToEmit s 0)\<rceil>"
    using beforeFree_particles_length [of s f] update_particles(1) [OF assms(1,6)]
    by (simp add: dt all)
  from dt calculateNumberToEmit_at_0(1) [OF assms(3)] co sv pool len ge cnt ct again nw ages
  show ?thesis by blast
qed

text \<open>
  An update with \<open>dt = 0\<close> changes the elapsed time when a wrap is pending. A looping
  system with the lifetime 10 is updated at the times 0 and 3, which brings its elapsed
  time to 3; the lifetime is then set to 2; the next update, again at the time 3, has the
  frame time 0 and leaves the elapsed time at 1.
\<close>

theorem zero_dt_update_wraps_pending_time:
  "map_sum id (\<lambda>s. (previousTime s, currentTime s, lifetime s))
     (updates [frame 0 1, frame 3 2] sysQuiet) = Inr (Some 3, 3, 10) \<and>
   map_sum id (\<lambda>s. (frameTime (frame 3 3) s, currentTime s, lifetime s))
     (andThen (updates [frame 0 1, frame 3 2] sysQuiet) (set_lifetime 2)) = Inr (0, 3, 2) \<and>
   map_sum id currentTime
     (andThen (andThen (updates [frame 0 1, frame 3 2] sysQuiet) (set_lifetime 2))
        (update (frame 3 3))) = Inr 1"
  using MAX_VALUE_large
  by (simp add: sysQuiet_def update_eval set_lifetime_def)

section \<open>Resizing the pool\<close>

lemma foldl_maximum: "foldl (\<lambda>a b. a + maximum b) a l = a + sum_list (map maximum l)"
  by (induction l arbitrary: a) simp_all

lemma burstAmount_sum:
  "burstAmount bs = (case bs of None \<Rightarrow> 0 | Some l \<Rightarrow> sum_list (map maximum l))"
  by (simp add: burstAmount_def foldl_maximum split: option.split)

lemma beforeFree_estimate:
  "particleEstimate (fst (beforeFree f s)) = particleEstimate (fst (preparePool s))"
  "updateParticlePool_flag (fst (beforeFree f s)) = updateParticlePool_flag (fst (preparePool s))"
  by (simp_all add: beforeFree_def Let_def)

lemma update_estimate:
  assumes "s_show s" "update f s = Inr s'"
  shows "particleEstimate s' = particleEstimate (fst (preparePool s))"
    "updateParticlePool_flag s' = updateParticlePool_flag (fst (preparePool s))"
proof -
  from update_result [OF assms] obtain pool c where
    "s' = (fst (beforeFree f s))\<lparr>particlePool := pool, billboardCollection := Some c\<rparr>"
    by blast
  then show "particleEstimate s' = particleEstimate (fst (preparePool s))"
    "updateParticlePool_flag s' = updateParticlePool_flag (fst (preparePool s))"
    by (simp_all add: beforeFree_estimate)
qed

lemma preparePool_flagged:
  assumes "updateParticlePool_flag s"
  shows "preparePool s =
    (let bc0 = (case billboardCollection s of None \<Rightarrow> new_BillboardCollection | Some c \<Rightarrow> c);
         estimate = \<lceil>emissionRate s * maximumParticleLife s +
                      (case bursts s of None \<Rightarrow> 0 | Some l \<Rightarrow> sum_list (map maximum l))\<rceil>;
         n = nat (max (estimate - int (length (particles s)) - int (length (particlePool s))) 0)
     in (s\<lparr>particlePool := particlePool s @
              map (\<lambda>j. new_Particle\<lparr>billboard := Some (nextHandle bc0 + j)\<rparr>) [0..<n],
            particleEstimate := estimate,
            updateParticlePool_flag := False\<rparr>,
         \<lparr>billboards = billboards bc0 @
              map (\<lambda>j. (nextHandle bc0 + j, new_Billboard (s_image s) False)) [0..<n],
           nextHandle = nextHandle bc0 + n\<rparr>))"
  using assms
  by (simp add: preparePool_def updateParticlePool_def addToPool_eq burstAmount_sum Let_def)

subsection \<open>The pool and the collection after the update\<close>

lemma modifyBillboard_keys [simp]:
  "map fst (billboards (modifyBillboard bc h f)) = map fst (billboards bc)"
  by (simp add: modifyBillboard_def o_def split_def)

lemma removeBillboard_keys [simp]:
  "map fst (billboards (removeBillboard bc p)) = map fst (billboards bc)"
  by (simp add: removeBillboard_def split: option.split)

lemma updateBillboard_keys:
  "prefix (map fst (billboards bc)) (map fst (billboards (fst (updateBillboard s bc p))))"
  by (cases "billboard p") (simp_all add: updateBillboard_def BillboardCollection_add_def Let_def)

lemma updateInOrder_keys:
  "prefix (map fst (billboards bc)) (map fst (billboards (snd (snd (updateInOrder s dt xs bc)))))"
proof (induction xs arbitrary: bc)
  case Nil
  show ?case by simp
next
  case (Cons p xs)
  show ?case
  proof (cases "survives s dt p")
    case True
    have "prefix (map fst (billboards bc))
        (map fst (billboards (fst (updateBillboard s bc (advanced s dt p)))))"
      by (rule updateBillboard_keys)
    also have "prefix \<dots> (map fst (billboards (snd (snd (updateInOrder s dt xs
        (fst (updateBillboard s bc (advanced s dt p))))))))"
      by (rule Cons.IH)
    finally show ?thesis using True by (simp add: split_def Let_def)
  next
    case False
    with Cons.IH [of "removeBillboard bc (advanced s dt p)"] show ?thesis
      by (simp add: split_def Let_def)
  qed
qed

lemma updateParticles_keys:
  "prefix (map fst (billboards (snd st))) (map fst (billboards (snd (updateParticles dt st))))"
proof -
  obtain s bc where st: "st = (s, bc)" by (cases st)
  from updateParticles_in_order [of s dt bc] obtain xs where
    "updateParticles dt (s, bc) =
       (s\<lparr>particles := fst (updateInOrder s dt xs bc),
          particlePool := particlePool s @ fst (snd (updateInOrder s dt xs bc))\<rparr>,
        snd (snd (updateInOrder s dt xs bc)))"
    by blast
  with updateInOrder_keys [of bc s dt xs] show ?thesis by (simp add: st)
qed

lemma emitParticle_keys:
  "prefix (map fst (billboards (snd st))) (map fst (billboards (snd (emitParticle m em st))))"
  by (simp add: emitParticle_def split_def Let_def updateBillboard_keys)

lemma emitLoop_keys:
  "prefix (map fst (billboards (snd st))) (map fst (billboards (snd (emitLoop m em n i st))))"
proof (induction m em n i st rule: emitLoop.induct)
  case (1 m em n i st)
  show ?case
  proof (cases "real i < n")
    case True
    have "prefix (map fst (billboards (snd st)))
        (map fst (billboards (snd (emitParticle m em st))))"
      by (rule emitParticle_keys)
    also have "prefix \<dots> (map fst (billboards (snd (emitLoop m em n (i + 1) (emitParticle m em st)))))"
      using 1 True by simp
    finally show ?thesis using True by (subst emitLoop.simps) simp
  next
    case False
    then show ?thesis by simp
  qed
qed

lemma emitParticles_keys:
  "prefix (map fst (billboards (snd st))) (map fst (billboards (snd (emitParticles n st))))"
proof -
  obtain s bc where st: "st = (s, bc)" by (cases st)
  have "prefix (map fst (billboards bc)) (map fst (billboards (snd (emitLoop m em n 0 (t, bc)))))"
    for m em t
    using emitLoop_keys [of "(t, bc)" m em n 0] by simp
  then show ?thesis
    by (simp add: st emitParticles_def Let_def split: option.split)
qed

lemma beforeFree_keys:
  "prefix (map fst (billboards (snd (preparePool s)))) (map fst (billboards (snd (beforeFree f s))))"
proof -
  let ?st2 = "updateParticles (frameTime f s) (preparePool s)"
  let ?r = "calculateNumberToEmit (fst ?st2) (frameTime f s)"
  have "prefix (map fst (billboards (snd (preparePool s)))) (map fst (billboards (snd ?st2)))"
    by (rule updateParticles_keys)
  also have "prefix \<dots> (map fst (billboards (snd (emitParticles (fst ?r) (snd ?r, snd ?st2)))))"
    using emitParticles_keys [of "(snd ?r, snd ?st2)" "fst ?r"] by simp
  finally show ?thesis by (simp add: beforeFree_def Let_def)
qed


lemma updateParticles_pool_length:
  "length (particlePool (fst (updateParticles dt (preparePool s)))) =
   length (particlePool (fst (preparePool s))) +
   length (filter (\<lambda>p. \<not> survives s dt p) (particles s))"
proof -
  obtain s1 bc1 where pp: "preparePool s = (s1, bc1)" by (cases "preparePool s")
  then have s1: "s1 = fst (preparePool s)" by simp
  from updateParticles_result [of dt s1 bc1] obtain S D bc' where
    up: "updateParticles dt (s1, bc1) = (s1\<lparr>particles := S, particlePool := particlePool s1 @ D\<rparr>, bc')"
    and D: "mset D = mset (map (advanced s1 dt) (filter (\<lambda>p. \<not> survives s1 dt p) (particles s1)))"
    by blast
  from D have "length D =
      length (map (advanced s1 dt) (filter (\<lambda>p. \<not> survives s1 dt p) (particles s1)))"
    by (rule mset_eq_length)
  moreover have "survives s1 = survives s" "particles s1 = particles s"
    by (simp_all add: s1)
  ultimately show ?thesis using up pp by simp
qed

lemma emitParticle_pool_length:
  "length (particlePool (fst (emitParticle m em st))) = length (particlePool (fst st)) - 1"
  by (simp add: emitParticle_def addParticle_def getOrCreateParticle_def split_def Let_def)

lemma emitLoop_pool_length:
  "length (particlePool (fst (emitLoop m em n i st))) =
   length (particlePool (fst st)) - (nat \<lceil>n\<rceil> - i)"
proof (induction m em n i st rule: emitLoop.induct)
  case (1 m em n i st)
  show ?case
  proof (cases "real i < n")
    case True
    then have "i < nat \<lceil>n\<rceil>"
      by (simp add: zless_nat_eq_int_zless less_ceiling_iff)
    with True 1 show ?thesis
      by (subst emitLoop.simps) (simp add: emitParticle_pool_length)
  next
    case False
    then have "nat \<lceil>n\<rceil> \<le> i"
      by (simp add: nat_le_iff ceiling_le_iff)
    with False show ?thesis by simp
  qed
qed

lemma emitParticles_pool_length:
  "length (particlePool (fst (emitParticles n st))) =
   length (particlePool (fst st)) - (if emitter (fst st) = None then 0 else nat \<lceil>n\<rceil>)"
  by (cases "0 < n")
     (auto simp: emitParticles_def split_def Let_def emitLoop_pool_length ceiling_le_iff not_less)

lemma beforeFree_pool_length:
  "length (particlePool (fst (beforeFree f s))) =
   length (particlePool (fst (preparePool s))) +
   length (filter (\<lambda>p. \<not> survives s (frameTime f s) p) (particles s)) -
   (if emitter s = None then 0 else nat \<lceil>fst (calculateNumberToEmit s (frameTime f s))\<rceil>)"
  by (simp add: beforeFree_def Let_def emitParticles_pool_length scheduled_count
      updateParticles_pool_length)

lemma beforeFree_particles_length_exact:
  "length (particles (fst (beforeFree f s))) =
   length (filter (survives s (frameTime f s)) (particles s)) +
   (if emitter s = None then 0 else nat \<lceil>fst (calculateNumberToEmit s (frameTime f s))\<rceil>)"
proof (cases "emitter s")
  case None
  then show ?thesis
    by (simp add: beforeFree_def Let_def emitParticles_def split_def updateParticles_length)
next
  case (Some em)
  then show ?thesis by (simp add: beforeFree_particles_length)
qed

text \<open>The update that resizes the pool releases nothing of it, on any frame.\<close>

lemma update_flagged:
  assumes "s_show s" "updateParticlePool_flag s"
  shows "update f s = Inr ((fst (beforeFree f s))\<lparr>billboardCollection := Some (snd (beforeFree f s))\<rparr>)"
proof -
  let ?dt = "frameTime f s"
  let ?e = "if emitter s = None then 0 else nat \<lceil>fst (calculateNumberToEmit s ?dt)\<rceil>"
  have split: "length (filter (survives s ?dt) (particles s)) +
      length (filter (\<lambda>p. \<not> survives s ?dt p) (particles s)) = length (particles s)"
    by (rule sum_length_filter_compl)
  have "particleEstimate (fst (preparePool s)) \<le>
      int (length (particles s)) + int (length (particlePool (fst (preparePool s))))"
    using assms(2) by (simp add: preparePool_flagged Let_def)
  also have "\<dots> \<le> int (length (particles (fst (beforeFree f s)))) +
      int (length (particlePool (fst (beforeFree f s))))"
    using split by (simp add: beforeFree_pool_length beforeFree_particles_length_exact)
  finally have "freeParticlePool (fst (beforeFree f s)) (snd (beforeFree f s)) =
      Inr (fst (beforeFree f s), snd (beforeFree f s))"
    by (intro freeParticlePool_keeps_surplus) (simp add: beforeFree_estimate)
  with assms(1) show ?thesis by (simp add: update_sections split_def)
qed

lemma emitParticles_none:
  "emitter (fst st) = None \<or> n \<le> 0 \<Longrightarrow> emitParticles n st = st"
  by (auto simp: emitParticles_def split_def split: option.split)

lemma beforeFree_quiet:
  assumes "particles s = []"
    and "emitter s = None \<or> fst (calculateNumberToEmit s (frameTime f s)) \<le> 0"
  shows "snd (beforeFree f s) = snd (preparePool s)"
proof -
  let ?st2 = "updateParticles (frameTime f s) (preparePool s)"
  let ?r = "calculateNumberToEmit (fst ?st2) (frameTime f s)"
  have p1: "particles (fst (preparePool s)) = []"
    using assms(1) by simp
  have up: "snd ?st2 = snd (preparePool s)"
    using p1 by (cases "preparePool s") (simp add: updateParticles_def)
  have n: "emitter (fst (snd ?r, snd ?st2)) = None \<or> fst ?r \<le> 0"
    using assms(2) by (simp add: scheduled_count)
  have "emitParticles (fst ?r) (snd ?r, snd ?st2) = (snd ?r, snd ?st2)"
    using n by (rule emitParticles_none)
  then show ?thesis by (simp add: beforeFree_def Let_def up)
qed

lemma beforeFree_pool_quiet:
  assumes "\<forall>p \<in> set (particles s). survives s (frameTime f s) p"
    and "emitter s = None \<or> fst (calculateNumberToEmit s (frameTime f s)) \<le> 0"
  shows "particlePool (fst (beforeFree f s)) = particlePool (fst (preparePool s))"
proof -
  let ?st2 = "updateParticles (frameTime f s) (preparePool s)"
  let ?r = "calculateNumberToEmit (fst ?st2) (frameTime f s)"
  obtain s1 bc1 where pp: "preparePool s = (s1, bc1)" by (cases "preparePool s")
  then have s1: "s1 = fst (preparePool s)" by simp
  from updateParticles_result [of "frameTime f s" s1 bc1] obtain S D bc' where
    up: "updateParticles (frameTime f s) (s1, bc1) =
      (s1\<lparr>particles := S, particlePool := particlePool s1 @ D\<rparr>, bc')"
    and D: "mset D = mset (map (advanced s1 (frameTime f s))
      (filter (\<lambda>p. \<not> survives s1 (frameTime f s) p) (particles s1)))"
    by blast
  have eqs: "survives s1 = survives s" "particles s1 = particles s"
    by (simp_all add: s1)
  from assms(1) have "filter (\<lambda>p. \<not> survives s (frameTime f s) p) (particles s) = []"
    by (simp add: filter_empty_conv)
  with D have "D = []" by (simp add: eqs)
  with up pp have pool: "particlePool (fst ?st2) = particlePool (fst (preparePool s))"
    by simp
  have n: "emitter (fst (snd ?r, snd ?st2)) = None \<or> fst ?r \<le> 0"
    using assms(2) by (simp add: scheduled_count)
  have "emitParticles (fst ?r) (snd ?r, snd ?st2) = (snd ?r, snd ?st2)"
    using n by (rule emitParticles_none)
  then show ?thesis by (simp add: beforeFree_def Let_def pool)
qed


text \<open>
  C7: The setters of the bursts, the emission rate and the maximum particle life raise
  the flag \<open>updateParticlePool\<close>. The next update of a shown system with the flag up
  recomputes \<open>estimate = ceil(emissionRate * maxParticleLife + sum of burst maxima)\<close>,
  clears the flag, and its first section appends exactly
  \<open>max(estimate - liveCount - poolSize, 0)\<close> new particles to the pool, each with a
  new billboard of the collection that is not shown. The system that this update returns
  has them: its pool has the size of the old pool, plus the new particles, plus the
  particles that died in the update, less the particles that the emission took from it;
  its live particles and its pool together reach the estimate; its collection has the
  handles of the old billboards, then those of the new ones, then those added later in
  the update. When no particle dies and none is emitted the pool is exactly the old pool
  followed by the new particles, and when there is no live particle and none is emitted
  the collection is exactly the old one followed by the new billboards, not shown.
\<close>

theorem pool_resized_after_configuration_change:
  assumes "s_show s" "updateParticlePool_flag s" "update f s = Inr s'" "0 \<le> v"
  shows "updateParticlePool_flag (set_bursts bs t) \<and>
         map_sum id updateParticlePool_flag (set_emissionRate v t) = Inr True \<and>
         map_sum id updateParticlePool_flag (set_maximumParticleLife v t) = Inr True \<and>
         particleEstimate s' =
           \<lceil>emissionRate s * maximumParticleLife s +
             (case bursts s of None \<Rightarrow> 0 | Some l \<Rightarrow> sum_list (map maximum l))\<rceil> \<and>
         \<not> updateParticlePool_flag s' \<and>
         preparePool s =
           (let bc0 = (case billboardCollection s of None \<Rightarrow> new_BillboardCollection | Some c \<Rightarrow> c);
                n = nat (max (particleEstimate s' - int (length (particles s))
                                - int (length (particlePool s))) 0)
            in (s\<lparr>particlePool := particlePool s @
                     map (\<lambda>j. new_Particle\<lparr>billboard := Some (nextHandle bc0 + j)\<rparr>) [0..<n],
                   particleEstimate := particleEstimate s',
                   updateParticlePool_flag := False\<rparr>,
                \<lparr>billboards = billboards bc0 @
                     map (\<lambda>j. (nextHandle bc0 + j, new_Billboard (s_image s) False)) [0..<n],
                  nextHandle = nextHandle bc0 + n\<rparr>)) \<and>
         (let bc0 = (case billboardCollection s of None \<Rightarrow> new_BillboardCollection | Some c \<Rightarrow> c);
              n = nat (max (particleEstimate s' - int (length (particles s))
                              - int (length (particlePool s))) 0);
              dt = frameTime f s;
              emitted = (if emitter s = None then 0 else nat \<lceil>fst (calculateNumberToEmit s dt)\<rceil>)
          in length (particles s') = length (filter (survives s dt) (particles s)) + emitted \<and>
             length (particlePool s') =
               length (particlePool s) + n +
               length (filter (\<lambda>p. \<not> survives s dt p) (particles s)) - emitted \<and>
             particleEstimate s' \<le> int (length (particles s')) + int (length (particlePool s')) \<and>
             (\<exists>c later. billboardCollection s' = Some c \<and>
                map fst (billboards c) =
                  map fst (billboards bc0) @ map (\<lambda>j. nextHandle bc0 + j) [0..<n] @ later) \<and>
             ((\<forall>p \<in> set (particles s). survives s dt p) \<and> emitted = 0 \<longrightarrow>
                particlePool s' = particlePool s @
                  map (\<lambda>j. new_Particle\<lparr>billboard := Some (nextHandle bc0 + j)\<rparr>) [0..<n]) \<and>
             (particles s = [] \<and> emitted = 0 \<longrightarrow>
                billboardCollection s' =
                  Some \<lparr>billboards = billboards bc0 @
                           map (\<lambda>j. (nextHandle bc0 + j, new_Billboard (s_image s) False)) [0..<n],
                        nextHandle = nextHandle bc0 + n\<rparr>))"
proof -
  define bc0 where "bc0 = (case billboardCollection s of None \<Rightarrow> new_BillboardCollection | Some c \<Rightarrow> c)"
  define n where "n = nat (max (particleEstimate s' - int (length (particles s))
                              - int (length (particlePool s))) 0)"
  define dt where "dt = frameTime f s"
  define emitted where
    "emitted = (if emitter s = None then 0 else nat \<lceil>fst (calculateNumberToEmit s dt)\<rceil>)"
  have setters: "updateParticlePool_flag (set_bursts bs t)"
    "map_sum id updateParticlePool_flag (set_emissionRate v t) = Inr True"
    "map_sum id updateParticlePool_flag (set_maximumParticleLife v t) = Inr True"
    using assms(4)
    by (simp_all add: set_bursts_def set_emissionRate_def set_maximumParticleLife_def)
  have est: "particleEstimate s' =
      \<lceil>emissionRate s * maximumParticleLife s +
        (case bursts s of None \<Rightarrow> 0 | Some l \<Rightarrow> sum_list (map maximum l))\<rceil>"
    and fl: "\<not> updateParticlePool_flag s'"
    by (simp_all add: update_estimate [OF assms(1,3)] preparePool_flagged [OF assms(2)] Let_def)
  have pp: "preparePool s =
      (s\<lparr>particlePool := particlePool s @
             map (\<lambda>j. new_Particle\<lparr>billboard := Some (nextHandle bc0 + j)\<rparr>) [0..<n],
           particleEstimate := particleEstimate s',
           updateParticlePool_flag := False\<rparr>,
       \<lparr>billboards = billboards bc0 @
             map (\<lambda>j. (nextHandle bc0 + j, new_Billboard (s_image s) False)) [0..<n],
          nextHandle = nextHandle bc0 + n\<rparr>)"
    using preparePool_flagged [OF assms(2)] est by (simp add: Let_def bc0_def n_def)
  have s': "s' = (fst (beforeFree f s))\<lparr>billboardCollection := Some (snd (beforeFree f s))\<rparr>"
    using update_flagged [OF assms(1,2), of f] assms(3) by simp
  have pool1: "length (particlePool (fst (preparePool s))) = length (particlePool s) + n"
    and keys1: "map fst (billboards (snd (preparePool s))) =
      map fst (billboards bc0) @ map (\<lambda>j. nextHandle bc0 + j) [0..<n]"
    by (simp_all add: pp o_def)
  have live: "length (particles s') = length (filter (survives s dt) (particles s)) + emitted"
    by (simp add: s' beforeFree_particles_length_exact dt_def emitted_def)
  have pool: "length (particlePool s') =
      length (particlePool s) + n +
      length (filter (\<lambda>p. \<not> survives s dt p) (particles s)) - emitted"
    by (simp add: s' beforeFree_pool_length pool1 dt_def emitted_def)
  have split: "length (filter (survives s dt) (particles s)) +
      length (filter (\<lambda>p. \<not> survives s dt p) (particles s)) = length (particles s)"
    by (rule sum_length_filter_compl)
  have "particleEstimate s' \<le> int (length (particles s)) + int (length (particlePool s)) + int n"
    by (simp add: n_def)
  also have "\<dots> \<le> int (length (particles s')) + int (length (particlePool s'))"
    using split by (simp add: live pool)
  finally have enough:
    "particleEstimate s' \<le> int (length (particles s')) + int (length (particlePool s'))" .
  from beforeFree_keys [of s f] obtain later where
    "map fst (billboards (snd (beforeFree f s))) =
       map fst (billboards (snd (preparePool s))) @ later"
    by (auto simp: prefix_def)
  then have keys: "\<exists>c later. billboardCollection s' = Some c \<and>
      map fst (billboards c) =
        map fst (billboards bc0) @ map (\<lambda>j. nextHandle bc0 + j) [0..<n] @ later"
    by (simp add: s' keys1)
  have e0: "emitter s = None \<or> fst (calculateNumberToEmit s (frameTime f s)) \<le> 0"
    if "emitted = 0"
    using that by (auto simp: emitted_def dt_def ceiling_le_iff split: if_splits)
  have quiet1: "(\<forall>p \<in> set (particles s). survives s dt p) \<and> emitted = 0 \<longrightarrow>
      particlePool s' = particlePool s @
        map (\<lambda>j. new_Particle\<lparr>billboard := Some (nextHandle bc0 + j)\<rparr>) [0..<n]"
  proof
    assume a: "(\<forall>p \<in> set (particles s). survives s dt p) \<and> emitted = 0"
    then have "\<forall>p \<in> set (particles s). survives s (frameTime f s) p"
      by (simp add: dt_def)
    from beforeFree_pool_quiet [OF this e0] a
    have "particlePool (fst (beforeFree f s)) = particlePool (fst (preparePool s))"
      by simp
    then show "particlePool s' = particlePool s @
        map (\<lambda>j. new_Particle\<lparr>billboard := Some (nextHandle bc0 + j)\<rparr>) [0..<n]"
      by (simp add: s' pp)
  qed
  have quiet2: "particles s = [] \<and> emitted = 0 \<longrightarrow>
      billboardCollection s' =
        Some \<lparr>billboards = billboards bc0 @
                 map (\<lambda>j. (nextHandle bc0 + j, new_Billboard (s_image s) False)) [0..<n],
              nextHandle = nextHandle bc0 + n\<rparr>"
  proof
    assume a: "particles s = [] \<and> emitted = 0"
    then have "particles s = []" by simp
    from beforeFree_quiet [OF this e0] a
    have "snd (beforeFree f s) = snd (preparePool s)" by simp
    then show "billboardCollection s' =
        Some \<lparr>billboards = billboards bc0 @
                 map (\<lambda>j. (nextHandle bc0 + j, new_Billboard (s_image s) False)) [0..<n],
              nextHandle = nextHandle bc0 + n\<rparr>"
      by (simp add: s' pp)
  qed
  from setters est fl pp live pool enough keys quiet1 quiet2 show ?thesis
    unfolding Let_def bc0_def [symmetric] n_def [symmetric] dt_def [symmetric]
      emitted_def [symmetric]
    by blast
qed


theorem pool_resized_after_configuration_change_witness:
  "s_show sysPool \<and> updateParticlePool_flag sysPool \<and>
   update (frame 0 1) sysPool = Inr (projr (update (frame 0 1) sysPool)) \<and> (0::real) \<le> 2 / 5 \<and>
   map_sum id (\<lambda>s. (emissionRate s, updateParticlePool_flag s))
     (andThen (update (frame 0 1) sysPool) (set_emissionRate (2 / 5))) = Inr (2 / 5, True) \<and>
   particleEstimate (projr (update (frame 0 1) sysPool)) = 5 \<and>
   \<not> updateParticlePool_flag (projr (update (frame 0 1) sysPool)) \<and>
   map billboard (particlePool (fst (preparePool sysPool))) = [Some 0, Some 1, Some 2, Some 3, Some 4] \<and>
   map fst (billboards (snd (preparePool sysPool))) = [0, 1, 2, 3, 4] \<and>
   map (\<lambda>b. bb_show (snd b)) (billboards (snd (preparePool sysPool))) =
     [False, False, False, False, False] \<and>
   particles sysPool = [] \<and> fst (calculateNumberToEmit sysPool (frameTime (frame 0 1) sysPool)) = 0 \<and>
   length (particles (projr (update (frame 0 1) sysPool))) = 0 \<and>
   map billboard (particlePool (projr (update (frame 0 1) sysPool))) =
     [Some 0, Some 1, Some 2, Some 3, Some 4] \<and>
   map_option (\<lambda>c. map (\<lambda>b. (fst b, bb_show (snd b))) (billboards c))
     (billboardCollection (projr (update (frame 0 1) sysPool))) =
     Some [(0, False), (1, False), (2, False), (3, False), (4, False)] \<and>
   map_sum id (\<lambda>s. (particleEstimate s, length (particlePool s),
                    map_option (\<lambda>c. length (billboards c)) (billboardCollection s)))
     (andThen (andThen (update (frame 0 1) sysPool) (set_emissionRate 2)) (update (frame 0 2)))
   = Inr (10, 10, Some 10)"
proof -
  have again: "map_sum id (\<lambda>s. (particleEstimate s, length (particlePool s),
                    map_option (\<lambda>c. length (billboards c)) (billboardCollection s)))
     (andThen (andThen (update (frame 0 1) sysPool) (set_emissionRate 2)) (update (frame 0 2)))
   = Inr (10, 10, Some 10)"
    by (simp add: sysPool_def update_eval set_emissionRate_def)
  have h: "s_show sysPool" "updateParticlePool_flag sysPool"
    by (simp_all add: sysPool_def sys_eval)
  have r: "update (frame 0 1) sysPool = Inr (projr (update (frame 0 1) sysPool))"
    by (rule update_returns) (simp add: frame_def)
  have v: "emissionRate sysPool = 1" "maximumParticleLife sysPool = 5" "bursts sysPool = None"
    "particles sysPool = []" "particlePool sysPool = []" "billboardCollection sysPool = None"
    "emitter sysPool \<noteq> None"
    by (simp_all add: sysPool_def sys_eval)
  have c: "fst (calculateNumberToEmit sysPool (frameTime (frame 0 1) sysPool)) = 0"
    by (simp add: sysPool_def sys_eval frameTime_def calculateNumberToEmit_def CesiumMath_mod_def
        Let_def)
  have u: "[0..<5] = [0, 1, 2, 3, 4]"
    by (simp add: upt_rec)
  have p: "(0::real) \<le> 2 / 5" by simp
  have e: "map_sum id (\<lambda>s. (emissionRate s, updateParticlePool_flag s))
     (andThen (update (frame 0 1) sysPool) (set_emissionRate (2 / 5))) = Inr (2 / 5, True)"
    by (subst r) (simp add: set_emissionRate_def)
  from pool_resized_after_configuration_change [OF h r p] h r e c again show ?thesis
    by (simp add: v Let_def new_BillboardCollection_def new_Billboard_def u)
qed

section \<open>The velocity of an emitted particle\<close>

lemma magnitude_normalize:
  assumes "w \<noteq> (0, 0, 0)"
  shows "Cartesian3_magnitude (Cartesian3_normalize w) = 1"
proof -
  obtain a b c where w: "w = (a, b, c)" by (cases w)
  let ?n = "a * a + b * b + c * c"
  from assms w have "a \<noteq> 0 \<or> b \<noteq> 0 \<or> c \<noteq> 0" by simp
  then have pos: "0 < ?n"
    by (metis add_pos_nonneg add_nonneg_pos zero_le_square not_real_square_gt_zero add_nonneg_nonneg)
  have sq: "sqrt ?n * sqrt ?n = ?n" using pos by simp
  have "(a / sqrt ?n) * (a / sqrt ?n) + (b / sqrt ?n) * (b / sqrt ?n) + (c / sqrt ?n) * (c / sqrt ?n)
      = (a * a + b * b + c * c) / (sqrt ?n * sqrt ?n)"
    by (simp only: times_divide_times_eq add_divide_distrib)
  also have "\<dots> = 1" using pos by (simp only: sq) simp
  finally show ?thesis by (simp add: w Let_def)
qed

lemma magnitude_multiplyByScalar:
  "Cartesian3_magnitude (Cartesian3_multiplyByScalar v k) = \<bar>k\<bar> * Cartesian3_magnitude v"
proof -
  obtain a b c where v: "v = (a, b, c)" by (cases v)
  have "a * k * (a * k) + b * k * (b * k) + c * k * (c * k) = (k * k) * (a * a + b * b + c * c)"
    by (simp add: algebra_simps)
  then show ?thesis by (simp add: v real_sqrt_mult)
qed

lemma emitParticle_last:
  assumes "em (randoms s) (fst (getOrCreateParticle s)) = (p1, rnd1)"
  shows "velocity (last (particles (fst (emitParticle m em (s, bc))))) =
      Cartesian3_multiplyByScalar
        (Cartesian3_normalize
          (Cartesian3_subtract
            (Matrix4_multiplyByPoint m (Cartesian3_add (position p1) (velocity p1)))
            (Matrix4_multiplyByPoint m (position p1))))
        (rnd1 4 * (maximumSpeed s - minimumSpeed s) + minimumSpeed s)"
    and "position (last (particles (fst (emitParticle m em (s, bc))))) =
      Matrix4_multiplyByPoint m (position p1)"
proof -
  have r: "randoms (snd (getOrCreateParticle s)) = randoms s"
    "minimumSpeed (snd (getOrCreateParticle s)) = minimumSpeed s"
    "maximumSpeed (snd (getOrCreateParticle s)) = maximumSpeed s"
    by (simp_all add: getOrCreateParticle_def)
  have n: "Suc (Suc (Suc (Suc 0))) = 4" by simp
  show "velocity (last (particles (fst (emitParticle m em (s, bc))))) =
      Cartesian3_multiplyByScalar
        (Cartesian3_normalize
          (Cartesian3_subtract
            (Matrix4_multiplyByPoint m (Cartesian3_add (position p1) (velocity p1)))
            (Matrix4_multiplyByPoint m (position p1))))
        (rnd1 4 * (maximumSpeed s - minimumSpeed s) + minimumSpeed s)"
    using assms
    by (simp add: emitParticle_def addParticle_def updateBillboard_def randomBetween_def
        split_def Let_def r n)
  show "position (last (particles (fst (emitParticle m em (s, bc))))) =
      Matrix4_multiplyByPoint m (position p1)"
    using assms
    by (simp add: emitParticle_def addParticle_def updateBillboard_def randomBetween_def
        split_def Let_def r)
qed

subsection \<open>The rounds of the emission loop\<close>

lemma emitLoop_funpow:
  "emitLoop m em n i st = (emitParticle m em ^^ (nat \<lceil>n\<rceil> - i)) st"
proof (induction m em n i st rule: emitLoop.induct)
  case (1 m em n i st)
  show ?case
  proof (cases "real i < n")
    case True
    then have "i < nat \<lceil>n\<rceil>"
      by (simp add: zless_nat_eq_int_zless less_ceiling_iff)
    then have k: "nat \<lceil>n\<rceil> - i = Suc (nat \<lceil>n\<rceil> - (i + 1))" by simp
    from True 1 have "emitLoop m em n i st =
        (emitParticle m em ^^ (nat \<lceil>n\<rceil> - (i + 1))) (emitParticle m em st)"
      by (subst emitLoop.simps) simp
    also have "\<dots> = (emitParticle m em ^^ (nat \<lceil>n\<rceil> - i)) st"
      by (simp only: k funpow_Suc_right o_apply)
    finally show ?thesis .
  next
    case False
    then have "nat \<lceil>n\<rceil> \<le> i"
      by (simp add: nat_le_iff ceiling_le_iff)
    with False show ?thesis by simp
  qed
qed

lemma emitParticle_particles:
  "particles (fst (emitParticle m em st)) =
   particles (fst st) @ [last (particles (fst (emitParticle m em st)))]"
  by (simp add: emitParticle_def addParticle_def getOrCreateParticle_def split_def Let_def)

lemma emitRounds_length:
  "length (particles (fst ((emitParticle m em ^^ k) st))) = length (particles (fst st)) + k"
  by (induction k) (simp_all add: emitParticle_length)

lemma emitRounds_nth:
  "j < k \<Longrightarrow>
   particles (fst ((emitParticle m em ^^ k) st)) ! (length (particles (fst st)) + j) =
   last (particles (fst (emitParticle m em ((emitParticle m em ^^ j) st))))"
proof (induction k)
  case 0
  then show ?case by simp
next
  case (Suc k)
  let ?x = "(emitParticle m em ^^ k) st"
  have p: "particles (fst ((emitParticle m em ^^ Suc k) st)) =
      particles (fst ?x) @ [last (particles (fst (emitParticle m em ?x)))]"
    using emitParticle_particles [of m em ?x] by simp
  show ?case
  proof (cases "j < k")
    case True
    with Suc.IH show ?thesis
      by (simp only: p nth_append emitRounds_length) simp
  next
    case False
    with Suc.prems have "j = k" by simp
    then show ?thesis
      by (simp only: p nth_append emitRounds_length) simp
  qed
qed

lemma emitRounds_keeps [simp]:
  "minimumSpeed (fst ((emitParticle m em ^^ k) st)) = minimumSpeed (fst st)"
  "maximumSpeed (fst ((emitParticle m em ^^ k) st)) = maximumSpeed (fst st)"
  by (induction k)
     (simp_all add: emitParticle_def addParticle_def getOrCreateParticle_def split_def Let_def)

lemma preparePool_matrices [simp]:
  "minimumSpeed (fst (preparePool s)) = minimumSpeed s"
  "maximumSpeed (fst (preparePool s)) = maximumSpeed s"
  "matrixDirty (fst (preparePool s)) = matrixDirty s"
  "modelMatrix (fst (preparePool s)) = modelMatrix s"
  "emitterModelMatrix (fst (preparePool s)) = emitterModelMatrix s"
  "combinedMatrix (fst (preparePool s)) = combinedMatrix s"
  by (simp_all add: preparePool_def updateParticlePool_def Let_def split_def)

lemma updateParticles_matrices [simp]:
  "minimumSpeed (fst (updateParticles dt st)) = minimumSpeed (fst st)"
  "maximumSpeed (fst (updateParticles dt st)) = maximumSpeed (fst st)"
  "matrixDirty (fst (updateParticles dt st)) = matrixDirty (fst st)"
  "modelMatrix (fst (updateParticles dt st)) = modelMatrix (fst st)"
  "emitterModelMatrix (fst (updateParticles dt st)) = emitterModelMatrix (fst st)"
  "combinedMatrix (fst (updateParticles dt st)) = combinedMatrix (fst st)"
  by (simp_all add: updateParticles_def split_def Let_def)

lemma calculateNumberToEmit_matrices [simp]:
  "minimumSpeed (snd (calculateNumberToEmit s dt)) = minimumSpeed s"
  "maximumSpeed (snd (calculateNumberToEmit s dt)) = maximumSpeed s"
  "matrixDirty (snd (calculateNumberToEmit s dt)) = matrixDirty s"
  "modelMatrix (snd (calculateNumberToEmit s dt)) = modelMatrix s"
  "emitterModelMatrix (snd (calculateNumberToEmit s dt)) = emitterModelMatrix s"
  "combinedMatrix (snd (calculateNumberToEmit s dt)) = combinedMatrix s"
  by (simp_all add: calculateNumberToEmit_def Let_def split_def split: option.split)

lemma calculateNumberToEmit_randoms:
  "bursts s = None \<Longrightarrow> randoms (snd (calculateNumberToEmit s dt)) = randoms s"
  by (simp add: calculateNumberToEmit_def Let_def split_def)

lemma combineMatrix_keeps [simp]:
  "minimumSpeed (combineMatrix s) = minimumSpeed s"
  "maximumSpeed (combineMatrix s) = maximumSpeed s"
  "randoms (combineMatrix s) = randoms s"
  "particles (combineMatrix s) = particles s"
  "particlePool (combineMatrix s) = particlePool s"
  "combinedMatrix (combineMatrix s) =
     (if matrixDirty s then Matrix4_multiply (modelMatrix s) (emitterModelMatrix s)
      else combinedMatrix s)"
  by (simp_all add: combineMatrix_def)

lemma emissionStart_keeps [simp]:
  "minimumSpeed (fst (emissionStart f s)) = minimumSpeed s"
  "maximumSpeed (fst (emissionStart f s)) = maximumSpeed s"
  "combinedMatrix (fst (emissionStart f s)) =
     (if matrixDirty s then Matrix4_multiply (modelMatrix s) (emitterModelMatrix s)
      else combinedMatrix s)"
  by (simp_all add: emissionStart_def Let_def)

lemma emissionStart_randoms:
  "bursts s = None \<Longrightarrow> randoms (fst (emissionStart f s)) = randoms s"
  by (simp add: emissionStart_def Let_def calculateNumberToEmit_randoms)

lemma emissionStart_particles:
  "length (particles (fst (emissionStart f s))) =
   length (filter (survives s (frameTime f s)) (particles s))"
proof -
  have "particles (fst (emissionStart f s)) =
      particles (fst (updateParticles (frameTime f s) (preparePool s)))"
    by (simp add: emissionStart_def Let_def)
  then show ?thesis by (simp add: updateParticles_length)
qed

lemma emitParticles_rounds:
  assumes "emitter (fst st) = Some em" "0 < n"
  shows "emitParticles n st =
    (emitParticle (combinedMatrix (combineMatrix (fst st))) em ^^ nat \<lceil>n\<rceil>)
      (combineMatrix (fst st), snd st)"
  using assms
  by (simp add: emitParticles_def combineMatrix_def split_def Let_def emitLoop_funpow)

lemma beforeFree_rounds:
  assumes "emitter s = Some em" "0 < fst (calculateNumberToEmit s (frameTime f s))"
  shows "particles (fst (beforeFree f s)) =
    particles (fst ((emitParticle (combinedMatrix (fst (emissionStart f s))) em ^^
       nat \<lceil>fst (calculateNumberToEmit s (frameTime f s))\<rceil>) (emissionStart f s)))"
proof -
  let ?st2 = "updateParticles (frameTime f s) (preparePool s)"
  let ?r = "calculateNumberToEmit (fst ?st2) (frameTime f s)"
  have e: "emitter (fst (snd ?r, snd ?st2)) = Some em"
    using assms(1) by simp
  have n: "0 < fst ?r"
    using assms(2) by (simp add: scheduled_count)
  have "emitParticles (fst ?r) (snd ?r, snd ?st2) =
      (emitParticle (combinedMatrix (fst (emissionStart f s))) em ^^ nat \<lceil>fst ?r\<rceil>)
        (emissionStart f s)"
    using emitParticles_rounds [OF e n] by (simp add: emissionStart_def Let_def)
  then show ?thesis
    by (simp add: beforeFree_def Let_def scheduled_count)
qed


text \<open>
  C9, as the code has it: for every particle that an update emits, that is, for every
  round \<open>j\<close> of the loop of lines 767-804, the velocity that the emitter has set is
  rotated into world space by transforming \<open>position + velocity\<close> by the combined
  matrix (the product of the model matrix and the emitter model matrix, computed when the
  matrices are dirty, lines 756-765), subtracting the transformed position, and
  normalizing; \<open>addParticle\<close> then multiplies this unit direction by a speed drawn from
  the configured speed bounds (lines 657-661, after line 799). The particle of round \<open>j\<close>
  is the \<open>j\<close>-th after the survivors in the live array of the system that the update
  returns. So its resulting speed is the drawn speed, within the bounds, whatever the
  scale of the transform (for a transformed offset that is not zero, bounds
  \<open>0 \<le> minimumSpeed \<le> maximumSpeed\<close> and a random number in \<open>[0, 1)\<close>).
\<close>

theorem speed_applied_after_rotation:
  assumes "s_show s" "emitter s = Some em" "update f s = Inr s'"
    and "real j < fst (calculateNumberToEmit s (frameTime f s))"
    and "m = (if matrixDirty s then Matrix4_multiply (modelMatrix s) (emitterModelMatrix s)
              else combinedMatrix s)"
    and "t = fst ((emitParticle m em ^^ j) (emissionStart f s))"
    and "em (randoms t) (fst (getOrCreateParticle t)) = (p1, rnd1)"
    and "Cartesian3_subtract
           (Matrix4_multiplyByPoint m (Cartesian3_add (position p1) (velocity p1)))
           (Matrix4_multiplyByPoint m (position p1)) = w"
    and "w \<noteq> (0, 0, 0)"
    and "0 \<le> minimumSpeed s" "minimumSpeed s \<le> maximumSpeed s" "0 \<le> rnd1 4" "rnd1 4 < 1"
    and "q = particles s' ! (length (filter (survives s (frameTime f s)) (particles s)) + j)"
  shows "length (particles s') =
      length (filter (survives s (frameTime f s)) (particles s)) +
      nat \<lceil>fst (calculateNumberToEmit s (frameTime f s))\<rceil> \<and>
    position q = Matrix4_multiplyByPoint m (position p1) \<and>
    velocity q =
      Cartesian3_multiplyByScalar (Cartesian3_normalize w)
        (rnd1 4 * (maximumSpeed s - minimumSpeed s) + minimumSpeed s) \<and>
    Cartesian3_magnitude (velocity q) =
      rnd1 4 * (maximumSpeed s - minimumSpeed s) + minimumSpeed s \<and>
    minimumSpeed s \<le> Cartesian3_magnitude (velocity q) \<and>
    Cartesian3_magnitude (velocity q) \<le> maximumSpeed s"
proof -
  let ?n = "fst (calculateNumberToEmit s (frameTime f s))"
  let ?speed = "rnd1 4 * (maximumSpeed s - minimumSpeed s) + minimumSpeed s"
  let ?x = "(emitParticle m em ^^ j) (emissionStart f s)"
  from assms(4) have pos: "0 < ?n"
    by (rule order.strict_trans1 [rotated]) simp
  from assms(4) have j: "j < nat \<lceil>?n\<rceil>"
    by (simp add: zless_nat_eq_int_zless less_ceiling_iff)
  have m: "combinedMatrix (fst (emissionStart f s)) = m"
    by (simp add: assms(5))
  have len: "length (particles s') =
      length (filter (survives s (frameTime f s)) (particles s)) + nat \<lceil>?n\<rceil>"
    using beforeFree_particles_length [of s f] update_particles(1) [OF assms(1,3)] assms(2)
    by simp
  have "particles s' = particles (fst ((emitParticle m em ^^ nat \<lceil>?n\<rceil>) (emissionStart f s)))"
    using update_particles(1) [OF assms(1,3)] beforeFree_rounds [OF assms(2) pos]
    by (simp only: m)
  then have q: "q = last (particles (fst (emitParticle m em ?x)))"
    using emitRounds_nth [OF j, of m em "emissionStart f s"]
    by (simp only: assms(14) emissionStart_particles)
  have x: "?x = (t, snd ?x)"
    by (simp add: assms(6))
  have sp: "minimumSpeed t = minimumSpeed s" "maximumSpeed t = maximumSpeed s"
    by (simp_all add: assms(6))
  have p: "position q = Matrix4_multiplyByPoint m (position p1)"
    using emitParticle_last(2) [where em = em and s = t and m = m and bc = "snd ?x", OF assms(7)]
    by (simp only: q) (simp only: x [symmetric])
  have v: "velocity q = Cartesian3_multiplyByScalar (Cartesian3_normalize w) ?speed"
    using emitParticle_last(1) [where em = em and s = t and m = m and bc = "snd ?x", OF assms(7)]
    by (simp only: q assms(8) sp) (simp only: x [symmetric])
  have lo: "minimumSpeed s \<le> ?speed"
    using assms(11,12) by simp
  have "rnd1 4 * (maximumSpeed s - minimumSpeed s) \<le> 1 * (maximumSpeed s - minimumSpeed s)"
    using assms(11,13) by (intro mult_right_mono) simp_all
  then have hi: "?speed \<le> maximumSpeed s" by simp
  from lo assms(10) have "0 \<le> ?speed" by simp
  then have "Cartesian3_magnitude (velocity q) = ?speed"
    by (simp add: v magnitude_multiplyByScalar magnitude_normalize [OF assms(9)])
  with len p v lo hi show ?thesis by simp
qed

text \<open>
  The magnitude is not chosen before the rotation step. With both speed bounds 5 and a
  transform that scales by 2, the velocity that enters the rotation step is the emitter's
  \<open>(0, 0, 1)\<close>, of magnitude 1, and the emitted particle has the velocity \<open>(0, 0, 5)\<close>;
  a velocity of magnitude 5 entering the rotation step would leave it with magnitude 1.
\<close>

theorem speed_not_chosen_before_rotation:
  "velocity (fst (upEmitter noRandom new_Particle)) = (0, 0, 1) \<and>
   minimumSpeed sysSpeed5 = 5 \<and> maximumSpeed sysSpeed5 = 5 \<and>
   velocity (last (particles (fst (emitParticle scale2 upEmitter (sysSpeed5, new_BillboardCollection)))))
     = (0, 0, 5) \<and>
   Cartesian3_normalize
     (Cartesian3_subtract
       (Matrix4_multiplyByPoint scale2 (Cartesian3_add (0, 0, 0) (Cartesian3_multiplyByScalar (0, 0, 1) 5)))
       (Matrix4_multiplyByPoint scale2 (0, 0, 0))) = (0, 0, 1)"
proof -
  have e: "upEmitter (randoms sysSpeed5) (fst (getOrCreateParticle sysSpeed5)) =
      (new_Particle\<lparr>position := (0, 0, 0), velocity := (0, 0, 1)\<rparr>, noRandom)"
    by (simp add: sysSpeed5_def new_ParticleSystem_def getOrCreateParticle_def upEmitter_def)
  have s: "minimumSpeed sysSpeed5 = 5" "maximumSpeed sysSpeed5 = 5"
    by (simp_all add: sysSpeed5_def new_ParticleSystem_def EMPTY_OBJECT_def nullish_def)
  have "velocity (last (particles (fst (emitParticle scale2 upEmitter (sysSpeed5, new_BillboardCollection)))))
     = (0, 0, 5)"
    by (simp add: emitParticle_last(1) [where em = upEmitter and s = sysSpeed5, OF e] s scale2_def
        Let_def)
  moreover have "velocity (fst (upEmitter noRandom new_Particle)) = (0, 0, 1)"
    by (simp add: upEmitter_def)
  moreover have "Cartesian3_normalize
     (Cartesian3_subtract
       (Matrix4_multiplyByPoint scale2 (Cartesian3_add (0, 0, 0) (Cartesian3_multiplyByScalar (0, 0, 1) 5)))
       (Matrix4_multiplyByPoint scale2 (0, 0, 0))) = (0, 0, 1)"
    by (simp add: scale2_def Let_def)
  ultimately show ?thesis using s by simp
qed

section \<open>Witnesses on concrete systems\<close>


lemma emitParticle_noRandom:
  "randoms (fst st) = noRandom \<Longrightarrow> randoms (fst (emitParticle m upEmitter st)) = noRandom"
  by (simp add: emitParticle_def addParticle_def randomBetween_def upEmitter_def noRandom_def
      getOrCreateParticle_def split_def Let_def)

lemma emitRounds_noRandom:
  "randoms (fst st) = noRandom \<Longrightarrow>
   randoms (fst ((emitParticle m upEmitter ^^ k) st)) = noRandom"
  by (induction k) (simp_all add: emitParticle_noRandom)

lemma sysWorld_after_one:
  "s_show (projr (update (frame 0 1) sysWorld)) \<and>
   emitter (projr (update (frame 0 1) sysWorld)) = Some upEmitter \<and>
   \<not> isComplete (projr (update (frame 0 1) sysWorld)) \<and>
   bursts (projr (update (frame 0 1) sysWorld)) = None \<and>
   emissionRate (projr (update (frame 0 1) sysWorld)) = 2 \<and>
   carryOver (projr (update (frame 0 1) sysWorld)) = 0 \<and>
   lifetime (projr (update (frame 0 1) sysWorld)) = 10 \<and>
   previousTime (projr (update (frame 0 1) sysWorld)) = Some 0 \<and>
   particles (projr (update (frame 0 1) sysWorld)) = [] \<and>
   randoms (projr (update (frame 0 1) sysWorld)) = noRandom \<and>
   matrixDirty (projr (update (frame 0 1) sysWorld)) \<and>
   modelMatrix (projr (update (frame 0 1) sysWorld)) = turnZX \<and>
   emitterModelMatrix (projr (update (frame 0 1) sysWorld)) = scale2 \<and>
   minimumSpeed (projr (update (frame 0 1) sysWorld)) = 5 \<and>
   maximumSpeed (projr (update (frame 0 1) sysWorld)) = 5"
  by (simp add: sysWorld_def update_eval)

theorem speed_applied_after_rotation_witness:
  "s_show (projr (update (frame 0 1) sysWorld)) \<and>
   emitter (projr (update (frame 0 1) sysWorld)) = Some upEmitter \<and>
   update (frame 1 2) (projr (update (frame 0 1) sysWorld)) =
     Inr (projr (update (frame 1 2) (projr (update (frame 0 1) sysWorld)))) \<and>
   fst (calculateNumberToEmit (projr (update (frame 0 1) sysWorld))
     (frameTime (frame 1 2) (projr (update (frame 0 1) sysWorld)))) = 2 \<and>
   matrixDirty (projr (update (frame 0 1) sysWorld)) \<and>
   Matrix4_multiply (modelMatrix (projr (update (frame 0 1) sysWorld)))
     (emitterModelMatrix (projr (update (frame 0 1) sysWorld))) = turn2 \<and>
   upEmitter
     (randoms (fst ((emitParticle turn2 upEmitter ^^ 1)
        (emissionStart (frame 1 2) (projr (update (frame 0 1) sysWorld))))))
     (fst (getOrCreateParticle (fst ((emitParticle turn2 upEmitter ^^ 1)
        (emissionStart (frame 1 2) (projr (update (frame 0 1) sysWorld))))))) =
     ((fst (getOrCreateParticle (fst ((emitParticle turn2 upEmitter ^^ 1)
        (emissionStart (frame 1 2) (projr (update (frame 0 1) sysWorld)))))))
        \<lparr>position := (0, 0, 0), velocity := (0, 0, 1)\<rparr>, noRandom) \<and>
   Cartesian3_subtract
     (Matrix4_multiplyByPoint turn2 (Cartesian3_add (0, 0, 0) (0, 0, 1)))
     (Matrix4_multiplyByPoint turn2 (0, 0, 0)) = (2, 0, 0) \<and>
   (2, 0, 0) \<noteq> ((0, 0, 0) :: Cartesian3) \<and>
   minimumSpeed (projr (update (frame 0 1) sysWorld)) = 5 \<and>
   maximumSpeed (projr (update (frame 0 1) sysWorld)) = 5 \<and>
   0 \<le> noRandom 4 \<and> noRandom 4 < 1 \<and>
   length (particles (projr (update (frame 1 2) (projr (update (frame 0 1) sysWorld))))) = 2 \<and>
   velocity (particles (projr (update (frame 1 2) (projr (update (frame 0 1) sysWorld)))) ! 0) =
     (5, 0, 0) \<and>
   velocity (particles (projr (update (frame 1 2) (projr (update (frame 0 1) sysWorld)))) ! 1) =
     (5, 0, 0) \<and>
   Cartesian3_magnitude
     (velocity (particles (projr (update (frame 1 2) (projr (update (frame 0 1) sysWorld)))) ! 1)) = 5 \<and>
   position (particles (projr (update (frame 1 2) (projr (update (frame 0 1) sysWorld)))) ! 1) =
     (1, 2, 3)"
proof -
  let ?s = "projr (update (frame 0 1) sysWorld)"
  let ?f = "frame 1 2"
  let ?s' = "projr (update ?f ?s)"
  let ?ta = "fst ((emitParticle turn2 upEmitter ^^ 0) (emissionStart ?f ?s))"
  let ?tb = "fst ((emitParticle turn2 upEmitter ^^ 1) (emissionStart ?f ?s))"
  let ?pa = "(fst (getOrCreateParticle ?ta))\<lparr>position := (0, 0, 0), velocity := (0, 0, 1)\<rparr>"
  let ?pb = "(fst (getOrCreateParticle ?tb))\<lparr>position := (0, 0, 0), velocity := (0, 0, 1)\<rparr>"
  note f = sysWorld_after_one
  have h: "s_show ?s" "emitter ?s = Some upEmitter"
    using f by simp_all
  have r: "update ?f ?s = Inr ?s'"
    by (rule update_returns) (simp add: frame_def)
  have dt: "frameTime ?f ?s = 1"
    using f by (simp add: frameTime_def frame_def)
  have c: "fst (calculateNumberToEmit ?s (frameTime ?f ?s)) = 2"
    unfolding dt using f by (simp add: calculateNumberToEmit_def CesiumMath_mod_def Let_def)
  then have j0: "real 0 < fst (calculateNumberToEmit ?s (frameTime ?f ?s))"
    and j: "real 1 < fst (calculateNumberToEmit ?s (frameTime ?f ?s))"
    by simp_all
  have mm: "Matrix4_multiply (modelMatrix ?s) (emitterModelMatrix ?s) = turn2"
    using f by (simp add: turnZX_def scale2_def turn2_def)
  have m: "turn2 = (if matrixDirty ?s
      then Matrix4_multiply (modelMatrix ?s) (emitterModelMatrix ?s) else combinedMatrix ?s)"
    using f mm by simp
  have t0: "?ta = fst ((emitParticle turn2 upEmitter ^^ 0) (emissionStart ?f ?s))" ..
  have t: "?tb = fst ((emitParticle turn2 upEmitter ^^ 1) (emissionStart ?f ?s))" ..
  have rt0: "randoms ?ta = noRandom"
    using f by (intro emitRounds_noRandom) (simp add: emissionStart_randoms)
  have rt: "randoms ?tb = noRandom"
    using f by (intro emitRounds_noRandom) (simp add: emissionStart_randoms)
  have e0: "upEmitter (randoms ?ta) (fst (getOrCreateParticle ?ta)) = (?pa, noRandom)"
    by (simp only: rt0) (simp add: upEmitter_def)
  have e: "upEmitter (randoms ?tb) (fst (getOrCreateParticle ?tb)) = (?pb, noRandom)"
    by (simp only: rt) (simp add: upEmitter_def)
  have w0: "Cartesian3_subtract
     (Matrix4_multiplyByPoint turn2 (Cartesian3_add (position ?pa) (velocity ?pa)))
     (Matrix4_multiplyByPoint turn2 (position ?pa)) = (2, 0, 0)"
    by (simp add: turn2_def)
  have w: "Cartesian3_subtract
     (Matrix4_multiplyByPoint turn2 (Cartesian3_add (position ?pb) (velocity ?pb)))
     (Matrix4_multiplyByPoint turn2 (position ?pb)) = (2, 0, 0)"
    by (simp add: turn2_def)
  have n: "(2, 0, 0) \<noteq> ((0, 0, 0) :: Cartesian3)" by simp
  have sp: "0 \<le> minimumSpeed ?s" "minimumSpeed ?s \<le> maximumSpeed ?s"
    "0 \<le> noRandom 4" "noRandom 4 < 1"
    using f by (simp_all add: noRandom_def)
  have q0: "particles ?s' ! 0 =
      particles ?s' ! (length (filter (survives ?s (frameTime ?f ?s)) (particles ?s)) + 0)"
    using f by simp
  have q: "particles ?s' ! 1 =
      particles ?s' ! (length (filter (survives ?s (frameTime ?f ?s)) (particles ?s)) + 1)"
    using f by simp
  have w': "Cartesian3_subtract
     (Matrix4_multiplyByPoint turn2 (Cartesian3_add (0, 0, 0) (0, 0, 1)))
     (Matrix4_multiplyByPoint turn2 (0, 0, 0)) = (2, 0, 0)"
    by (simp add: turn2_def)
  have v: "minimumSpeed ?s = 5" "maximumSpeed ?s = 5" "noRandom 4 = 0" "particles ?s = []"
    "matrixDirty ?s"
    using f by (simp_all add: noRandom_def)
  from speed_applied_after_rotation [OF h r j0 m t0 e0 w0 n sp q0]
  have first: "velocity (particles ?s' ! 0) = (5, 0, 0)"
    using v by simp
  have pz: "Matrix4_multiplyByPoint turn2 (0, 0, 0) = (1, 2, 3)"
    by (simp add: turn2_def)
  from speed_applied_after_rotation [OF h r j m t e w n sp q] first h r c mm w' v e pz
  show ?thesis by simp
qed

text \<open>
  The burst at \<open>time = 0\<close> does not fire at the first update tick: after the first update
  (and after a second one, a second later, which starts with the elapsed time 0) no
  particle has been emitted and the burst has not fired.
\<close>

theorem burst_at_time_0_misses_first_tick:
  "map_sum id (\<lambda>s. (length (particles s), map_option (map burst_complete) (bursts s), currentTime s))
     (updates [frame 0 1] sysBurst) = Inr (0, Some [False], 0) \<and>
   map_sum id (\<lambda>s. (length (particles s), map_option (map burst_complete) (bursts s), currentTime s))
     (updates [frame 0 1, frame 1 2] sysBurst) = Inr (0, Some [False], 1)"
  by (simp add: sysBurst_def update_eval)

lemma sysBurst_after_two:
  "updates [frame 0 1, frame 1 2] sysBurst =
     Inr (projr (updates [frame 0 1, frame 1 2] sysBurst))"
  by (rule updates_returns) (simp add: frame_def)

lemma sysBurst_after_two_fields:
  "s_show (projr (updates [frame 0 1, frame 1 2] sysBurst)) \<and>
   \<not> isComplete (projr (updates [frame 0 1, frame 1 2] sysBurst)) \<and>
   bursts (projr (updates [frame 0 1, frame 1 2] sysBurst)) =
     Some [\<lparr>time = 0, minimum = 3, maximum = 3, burst_complete = False\<rparr>] \<and>
   emitter (projr (updates [frame 0 1, frame 1 2] sysBurst)) \<noteq> None \<and>
   emissionRate (projr (updates [frame 0 1, frame 1 2] sysBurst)) = 0 \<and>
   carryOver (projr (updates [frame 0 1, frame 1 2] sysBurst)) = 0 \<and>
   lifetime (projr (updates [frame 0 1, frame 1 2] sysBurst)) = MAX_VALUE \<and>
   currentTime (projr (updates [frame 0 1, frame 1 2] sysBurst)) = 1 \<and>
   particles (projr (updates [frame 0 1, frame 1 2] sysBurst)) = []"
  by (simp add: sysBurst_def update_eval)

theorem burst_fires_once_elapsed_exceeds_time_witness:
  "\<not> isComplete (projr (updates [frame 0 1, frame 1 2] sysBurst)) \<and>
   bursts (projr (updates [frame 0 1, frame 1 2] sysBurst)) =
     Some [\<lparr>time = 0, minimum = 3, maximum = 3, burst_complete = False\<rparr>] \<and>
   list_all (\<lambda>b. minimum b = maximum b)
     [\<lparr>time = 0, minimum = 3, maximum = 3, burst_complete = False\<rparr>] \<and>
   s_show (projr (updates [frame 0 1, frame 1 2] sysBurst)) \<and>
   emitter (projr (updates [frame 0 1, frame 1 2] sysBurst)) \<noteq> None \<and>
   emissionRate (projr (updates [frame 0 1, frame 1 2] sysBurst)) = 0 \<and>
   carryOver (projr (updates [frame 0 1, frame 1 2] sysBurst)) \<le> 1 \<and>
   0 < lifetime (projr (updates [frame 0 1, frame 1 2] sysBurst)) \<and>
   update (frame 2 3) (projr (updates [frame 0 1, frame 1 2] sysBurst)) =
     Inr (projr (update (frame 2 3) (projr (updates [frame 0 1, frame 1 2] sysBurst)))) \<and>
   currentTime (projr (updates [frame 0 1, frame 1 2] sysBurst)) = 1 \<and>
   length (particles (projr (updates [frame 0 1, frame 1 2] sysBurst))) = 0 \<and>
   length (particles
     (projr (update (frame 2 3) (projr (updates [frame 0 1, frame 1 2] sysBurst))))) = 3 \<and>
   bursts (projr (update (frame 2 3) (projr (updates [frame 0 1, frame 1 2] sysBurst)))) =
     Some [\<lparr>time = 0, minimum = 3, maximum = 3, burst_complete = True\<rparr>] \<and>
   fst (calculateNumberToEmit
     (projr (update (frame 2 3) (projr (updates [frame 0 1, frame 1 2] sysBurst)))) 1) = 0 \<and>
   updates [frame 3 4, frame 4 5]
       (projr (update (frame 2 3) (projr (updates [frame 0 1, frame 1 2] sysBurst)))) =
     Inr (projr (updates [frame 3 4, frame 4 5]
       (projr (update (frame 2 3) (projr (updates [frame 0 1, frame 1 2] sysBurst)))))) \<and>
   length (particles (projr (updates [frame 3 4, frame 4 5]
       (projr (update (frame 2 3) (projr (updates [frame 0 1, frame 1 2] sysBurst))))))) \<le> 3 \<and>
   bursts (projr (updates [frame 3 4, frame 4 5]
       (projr (update (frame 2 3) (projr (updates [frame 0 1, frame 1 2] sysBurst)))))) =
     Some [\<lparr>time = 0, minimum = 3, maximum = 3, burst_complete = True\<rparr>] \<and>
   fst (calculateNumberToEmit (projr (updates [frame 3 4, frame 4 5]
       (projr (update (frame 2 3) (projr (updates [frame 0 1, frame 1 2] sysBurst)))))) 1) = 0"
proof -
  let ?s = "projr (updates [frame 0 1, frame 1 2] sysBurst)"
  let ?bs = "[\<lparr>time = 0, minimum = 3, maximum = 3, burst_complete = False\<rparr>]"
  let ?s' = "projr (update (frame 2 3) ?s)"
  note f = sysBurst_after_two_fields
  have h1: "\<not> isComplete ?s" "bursts ?s = Some ?bs" "\<forall>b \<in> set ?bs. minimum b = maximum b"
    "s_show ?s" "emitter ?s \<noteq> None" "emissionRate ?s = 0" "carryOver ?s \<le> 1" "0 < lifetime ?s"
    using f MAX_VALUE_large by simp_all
  have r: "update (frame 2 3) ?s = Inr (projr (update (frame 2 3) ?s))"
    by (rule update_returns) (simp add: frame_def)
  have r2: "updates [frame 3 4, frame 4 5] ?s' = Inr (projr (updates [frame 3 4, frame 4 5] ?s'))"
    by (rule updates_returns) (simp add: frame_def)
  have v: "currentTime ?s = 1" "particles ?s = []" "lifetime ?s = MAX_VALUE"
    using f by simp_all
  from burst_fires_once_elapsed_exceeds_time [OF h1 r, of 0 1 "[frame 3 4, frame 4 5]"
      "projr (updates [frame 3 4, frame 4 5] ?s')"] h1 r r2 v
  show ?thesis by simp
qed

theorem update_with_zero_dt_witness:
  "s_show sysIdle \<and>
   (case previousTime sysIdle of None \<Rightarrow> 0 | Some t \<Rightarrow> fs_time (frame 2 5) - t) \<le> 0 \<and>
   carryOver sysIdle \<le> 1 \<and> 0 < lifetime sysIdle \<and>
   list_all (\<lambda>p. age p \<le> life p) (particles sysIdle) \<and>
   update (frame 2 5) sysIdle = Inr (projr (update (frame 2 5) sysIdle)) \<and>
   currentTime sysIdle = 3 \<and> lifetime sysIdle = 10 \<and>
   frameTime (frame 2 5) sysIdle = 0 \<and>
   fst (calculateNumberToEmit sysIdle 0) = 0 \<and>
   carryOver (projr (update (frame 2 5) sysIdle)) = 1 / 2 \<and>
   length (particles (projr (update (frame 2 5) sysIdle))) = 2 \<and>
   currentTime (projr (update (frame 2 5) sysIdle)) = 3"
proof -
  have v: "previousTime sysIdle = Some 3" "carryOver sysIdle = 1 / 2" "lifetime sysIdle = 10"
    "currentTime sysIdle = 3" "particles sysIdle = [liveParticle, oldParticle]"
    "bursts sysIdle = None" "\<not> isComplete sysIdle" "emitter sysIdle \<noteq> None"
    by (simp_all add: sysIdle_def sys_eval)
  have h: "s_show sysIdle"
    "(case previousTime sysIdle of None \<Rightarrow> 0 | Some t \<Rightarrow> fs_time (frame 2 5) - t) \<le> 0"
    "carryOver sysIdle \<le> 1" "0 < lifetime sysIdle"
    "\<forall>p \<in> set (particles sysIdle). age p \<le> life p"
    by (simp_all add: v frame_def liveParticle_def oldParticle_def new_Particle_def)
      (simp add: sysIdle_def sys_eval)
  have r: "update (frame 2 5) sysIdle = Inr (projr (update (frame 2 5) sysIdle))"
    by (rule update_returns) (simp add: frame_def)
  from update_with_zero_dt [OF h r] h r show ?thesis
    by (simp add: v)
qed


end
